theory Spec2Isabelle
  imports Main "HOL-Library.Word"
begin

unbundle bit_operations_syntax

section \<open>Bytes and Go integers\<close>

text \<open>
  A Go \<^verbatim>\<open>[]byte\<close> is a list of 8-bit words. A nil slice and an empty slice are both
  the empty list. Go's \<^verbatim>\<open>int\<close> is modelled as \<open>int\<close>: every value the decoder produces
  lies in the 64-bit range (\<open>parseInt64\<close> goes through a 64-bit word), and lengths, which
  are never negative, are \<open>nat\<close>.
\<close>

type_synonym byte = "8 word"
type_synonym bytes = "byte list"

section \<open>The part of Go's \<^verbatim>\<open>encoding/asn1\<close> that the LDAP package calls\<close>

text \<open>
  The package \<^verbatim>\<open>ldap\<close> decodes with \<^verbatim>\<open>asn1.Unmarshal\<close> into an \<^verbatim>\<open>asn1.RawValue\<close>, an
  \<^verbatim>\<open>int\<close>, a \<^verbatim>\<open>bool\<close> or a byte slice type, and encodes with \<^verbatim>\<open>asn1.Marshal\<close> of an
  \<^verbatim>\<open>int\<close>, a byte slice type or an \<^verbatim>\<open>asn1.RawValue\<close>. The standard library is not part of
  the repository; the definitions below follow its functions \<^verbatim>\<open>parseBase128Int\<close>,
  \<^verbatim>\<open>parseTagAndLength\<close>, \<^verbatim>\<open>parseField\<close>, \<^verbatim>\<open>parseInt64\<close>, \<^verbatim>\<open>parseBool\<close>,
  \<^verbatim>\<open>marshalTagAndLength\<close>, \<^verbatim>\<open>marshalBase128Int\<close>, \<^verbatim>\<open>marshalLength\<close> and \<^verbatim>\<open>marshalInt64\<close>,
  as they stand in the current Go release on a 64-bit platform (a Go \<^verbatim>\<open>int\<close> is
  decoded with \<^verbatim>\<open>parseInt64\<close>). An offset into the input is modelled by the bytes that
  remain after it. The callers in package \<^verbatim>\<open>ldap\<close> replace every error of
  \<^verbatim>\<open>asn1.Unmarshal\<close> by an error of their own, so only the fact of an error reaches
  them.
\<close>

datatype asn1_error = SyntaxError string | StructuralError string | InternalError string

record tagAndLength =
  tl_class :: int
  tl_tag :: int
  tl_length :: nat
  tl_isCompound :: bool

record RawValue =
  Class :: int
  Tag :: int
  IsCompound :: bool
  Bytes :: bytes
  FullBytes :: bytes

text \<open>\<^verbatim>\<open>parseBase128Int\<close>: the loop variable \<^verbatim>\<open>shifted\<close> and the accumulator \<^verbatim>\<open>ret64\<close> are
  arguments; the loop ends without a result when the input runs out.\<close>

fun parseBase128Int :: "bytes \<Rightarrow> nat \<Rightarrow> int \<Rightarrow> asn1_error + (int \<times> bytes)" where
  "parseBase128Int [] shifted ret64 = Inl (SyntaxError ''truncated base 128 integer'')"
| "parseBase128Int (b # bs) shifted ret64 =
     (if shifted = 5 then Inl (StructuralError ''base 128 integer too large'')
      else if shifted = 0 \<and> b = 0x80 then Inl (SyntaxError ''integer is not minimally encoded'')
      else
        let r = push_bit 7 ret64 OR uint (b AND 0x7f) in
        if b AND 0x80 = 0 then
          (if r > 2147483647 then Inl (StructuralError ''base 128 integer too large'')
           else Inr (r, bs))
        else parseBase128Int bs (Suc shifted) r)"

text \<open>The loop of \<^verbatim>\<open>parseTagAndLength\<close> over the \<^verbatim>\<open>numBytes\<close> octets of a long-form length;
  the first argument counts the iterations that remain.\<close>

fun parseLength_loop :: "nat \<Rightarrow> bytes \<Rightarrow> nat \<Rightarrow> asn1_error + (nat \<times> bytes)" where
  "parseLength_loop 0 bs len = Inr (len, bs)"
| "parseLength_loop (Suc n) [] len = Inl (SyntaxError ''truncated tag or length'')"
| "parseLength_loop (Suc n) (b # bs) len =
     (if len \<ge> 2 ^ 23 then Inl (StructuralError ''length too large'')
      else
        let len' = push_bit 8 len OR unat b in
        if len' = 0 then Inl (StructuralError ''superfluous leading zeros in length'')
        else parseLength_loop n bs len')"

definition parseTag :: "byte \<Rightarrow> bytes \<Rightarrow> asn1_error + (int \<times> bytes)" where
  "parseTag b bs =
     (if uint (b AND 0x1f) = 0x1f then
        (case parseBase128Int bs 0 0 of
           Inl e \<Rightarrow> Inl e
         | Inr (t, r) \<Rightarrow> if t < 0x1f then Inl (SyntaxError ''non-minimal tag'') else Inr (t, r))
      else Inr (uint (b AND 0x1f), bs))"

definition parseLength :: "bytes \<Rightarrow> asn1_error + (nat \<times> bytes)" where
  "parseLength bs =
     (case bs of
        [] \<Rightarrow> Inl (SyntaxError ''truncated tag or length'')
      | l # r \<Rightarrow>
          if l AND 0x80 = 0 then Inr (unat (l AND 0x7f), r)
          else
            let numBytes = unat (l AND 0x7f) in
            if numBytes = 0 then Inl (SyntaxError ''indefinite length found (not DER)'')
            else
              (case parseLength_loop numBytes r 0 of
                 Inl e \<Rightarrow> Inl e
               | Inr (len, r') \<Rightarrow>
                   if len < 0x80 then Inl (StructuralError ''non-minimal length'')
                   else Inr (len, r')))"

definition parseTagAndLength :: "bytes \<Rightarrow> asn1_error + (tagAndLength \<times> bytes)" where
  "parseTagAndLength bytes =
     (case bytes of
        [] \<Rightarrow> Inl (InternalError ''asn1: internal error in parseTagAndLength'')
      | b # bs \<Rightarrow>
          (case parseTag b bs of
             Inl e \<Rightarrow> Inl e
           | Inr (t, r) \<Rightarrow>
               (case parseLength r of
                  Inl e \<Rightarrow> Inl e
                | Inr (len, r') \<Rightarrow>
                    Inr (\<lparr>tl_class = uint (drop_bit 6 b), tl_tag = t, tl_length = len,
                          tl_isCompound = (b AND 0x20 = 0x20)\<rparr>, r'))))"

text \<open>\<^verbatim>\<open>asn1.Unmarshal(b, &raw)\<close> with \<^verbatim>\<open>raw\<close> an \<^verbatim>\<open>asn1.RawValue\<close>: the branch of
  \<^verbatim>\<open>parseField\<close> for raw values. The result is the value and the rest of the input.\<close>

definition Unmarshal_RawValue :: "bytes \<Rightarrow> asn1_error + (RawValue \<times> bytes)" where
  "Unmarshal_RawValue b =
     (if b = [] then Inl (SyntaxError ''sequence truncated'')
      else
        (case parseTagAndLength b of
           Inl e \<Rightarrow> Inl e
         | Inr (t, r) \<Rightarrow>
             if tl_length t > length r then Inl (SyntaxError ''data truncated'')
             else
               Inr (\<lparr>Class = tl_class t, Tag = tl_tag t, IsCompound = tl_isCompound t,
                     Bytes = take (tl_length t) r,
                     FullBytes = take (length b - length r + tl_length t) b\<rparr>,
                    drop (tl_length t) r)))"

text \<open>The branch of \<^verbatim>\<open>parseField\<close> for a Go type with a universal tag: the tag, class and
  constructed bit must match, then the content octets are cut out.\<close>

definition parseUniversal :: "int \<Rightarrow> bool \<Rightarrow> bytes \<Rightarrow> asn1_error + (bytes \<times> bytes)" where
  "parseUniversal expectedTag compoundType b =
     (if b = [] then Inl (SyntaxError ''sequence truncated'')
      else
        (case parseTagAndLength b of
           Inl e \<Rightarrow> Inl e
         | Inr (t, r) \<Rightarrow>
             if tl_class t \<noteq> 0 \<or> tl_tag t \<noteq> expectedTag \<or> tl_isCompound t \<noteq> compoundType
             then Inl (StructuralError ''tags don't match'')
             else if tl_length t > length r then Inl (SyntaxError ''data truncated'')
             else Inr (take (tl_length t) r, drop (tl_length t) r)))"

definition checkInteger :: "bytes \<Rightarrow> asn1_error option" where
  "checkInteger bs =
     (case bs of
        [] \<Rightarrow> Some (StructuralError ''empty integer'')
      | [b] \<Rightarrow> None
      | b0 # b1 # _ \<Rightarrow>
          if (b0 = 0 \<and> b1 AND 0x80 = 0) \<or> (b0 = 0xff \<and> b1 AND 0x80 = 0x80)
          then Some (StructuralError ''integer not minimally-encoded'')
          else None)"

definition parseInt64 :: "bytes \<Rightarrow> asn1_error + int" where
  "parseInt64 bs =
     (case checkInteger bs of
        Some e \<Rightarrow> Inl e
      | None \<Rightarrow>
          if length bs > 8 then Inl (StructuralError ''integer too large'')
          else
            let ret = fold (\<lambda>b r. push_bit 8 r OR ucast b) bs (0 :: 64 word);
                k = 64 - length bs * 8
            in Inr (sint (signed_drop_bit k (push_bit k ret))))"

definition parseBool :: "bytes \<Rightarrow> asn1_error + bool" where
  "parseBool bs =
     (case bs of
        [b] \<Rightarrow> if b = 0 then Inr False
               else if b = 0xff then Inr True
               else Inl (SyntaxError ''invalid boolean'')
      | _ \<Rightarrow> Inl (SyntaxError ''invalid boolean''))"

text \<open>\<^verbatim>\<open>asn1.Unmarshal\<close> into an \<^verbatim>\<open>int\<close> (INTEGER, tag 2), into a byte slice type such as
  \<^verbatim>\<open>LDAPString\<close>, \<^verbatim>\<open>LDAPDN\<close> or \<^verbatim>\<open>[]byte\<close> (OCTET STRING, tag 4) and into a \<^verbatim>\<open>bool\<close>
  (BOOLEAN, tag 1).\<close>

definition Unmarshal_int :: "bytes \<Rightarrow> asn1_error + (int \<times> bytes)" where
  "Unmarshal_int b =
     (case parseUniversal 2 False b of
        Inl e \<Rightarrow> Inl e
      | Inr (inner, rest) \<Rightarrow>
          (case parseInt64 inner of Inl e \<Rightarrow> Inl e | Inr i \<Rightarrow> Inr (i, rest)))"

definition Unmarshal_bytes :: "bytes \<Rightarrow> asn1_error + (bytes \<times> bytes)" where
  "Unmarshal_bytes b = parseUniversal 4 False b"

definition Unmarshal_bool :: "bytes \<Rightarrow> asn1_error + (bool \<times> bytes)" where
  "Unmarshal_bool b =
     (case parseUniversal 1 False b of
        Inl e \<Rightarrow> Inl e
      | Inr (inner, rest) \<Rightarrow>
          (case parseBool inner of Inl e \<Rightarrow> Inl e | Inr v \<Rightarrow> Inr (v, rest)))"


subsection \<open>Encoding\<close>

text \<open>The loop of \<^verbatim>\<open>base128IntLength\<close>, which counts the 7-bit groups of a positive
  number.\<close>

function base128IntLength_loop :: "nat \<Rightarrow> int \<Rightarrow> nat" where
  "base128IntLength_loop l i =
     (if i > 0 then base128IntLength_loop (Suc l) (drop_bit 7 i) else l)"
  by pat_completeness auto
termination
  by (relation "measure (\<lambda>(l, i). nat i)") (auto simp: drop_bit_eq_div)

declare base128IntLength_loop.simps [simp del]

definition base128IntLength :: "int \<Rightarrow> nat" where
  "base128IntLength n = (if n = 0 then 1 else base128IntLength_loop 0 n)"

text \<open>\<^verbatim>\<open>appendBase128Int\<close> (\<^verbatim>\<open>marshalBase128Int\<close> in older releases): the 7-bit groups from
  the most significant one, each but the last with bit 8 set.\<close>

definition marshalBase128Int :: "int \<Rightarrow> bytes" where
  "marshalBase128Int n =
     map (\<lambda>i. let o7 = (word_of_int (drop_bit (i * 7) n) :: byte) AND 0x7f
               in if i \<noteq> 0 then o7 OR 0x80 else o7)
         (rev [0..<base128IntLength n])"

function lengthLength :: "nat \<Rightarrow> nat" where
  "lengthLength i = (if i > 255 then Suc (lengthLength (drop_bit 8 i)) else 1)"
  by pat_completeness auto
termination
  by (relation "measure id") (auto simp: drop_bit_eq_div)

declare lengthLength.simps [simp del]

definition marshalLength :: "nat \<Rightarrow> bytes" where
  "marshalLength i = map (\<lambda>n. (of_nat (drop_bit (n * 8) i) :: byte)) (rev [0..<lengthLength i])"

definition marshalTagAndLength :: "tagAndLength \<Rightarrow> bytes" where
  "marshalTagAndLength t =
     (let b0 = push_bit 6 (word_of_int (tl_class t) :: byte);
          b1 = (if tl_isCompound t then b0 OR 0x20 else b0);
          ident = (if tl_tag t \<ge> 31 then (b1 OR 0x1f) # marshalBase128Int (tl_tag t)
                   else [b1 OR word_of_int (tl_tag t)]);
          len = (if tl_length t \<ge> 128
                 then (0x80 OR of_nat (lengthLength (tl_length t))) # marshalLength (tl_length t)
                 else [of_nat (tl_length t)])
      in ident @ len)"

text \<open>The two loops of \<^verbatim>\<open>int64Length\<close>, each threading \<^verbatim>\<open>numBytes\<close> and \<^verbatim>\<open>i\<close>.\<close>

function int64Length_pos :: "nat \<Rightarrow> int \<Rightarrow> nat \<times> int" where
  "int64Length_pos numBytes i =
     (if i > 127 then int64Length_pos (Suc numBytes) (drop_bit 8 i) else (numBytes, i))"
  by pat_completeness auto
termination
  by (relation "measure (\<lambda>(n, i). nat i)") (auto simp: drop_bit_eq_div)

declare int64Length_pos.simps [simp del]

function int64Length_neg :: "nat \<Rightarrow> int \<Rightarrow> nat \<times> int" where
  "int64Length_neg numBytes i =
     (if i < -128 then int64Length_neg (Suc numBytes) (drop_bit 8 i) else (numBytes, i))"
  by pat_completeness auto
termination
  by (relation "measure (\<lambda>(n, i). nat (- i))") (auto simp: drop_bit_eq_div)

declare int64Length_neg.simps [simp del]

definition int64Length :: "int \<Rightarrow> nat" where
  "int64Length i =
     (case int64Length_pos 1 i of (n, i') \<Rightarrow> fst (int64Length_neg n i'))"

definition marshalInt64 :: "int \<Rightarrow> bytes" where
  "marshalInt64 i = map (\<lambda>n. (word_of_int (drop_bit (n * 8) i) :: byte)) (rev [0..<int64Length i])"

text \<open>\<^verbatim>\<open>asn1.Marshal\<close> of an \<^verbatim>\<open>int\<close>, of a byte slice type and of an \<^verbatim>\<open>asn1.RawValue\<close>.
  None of the three can return an error.\<close>

definition Marshal_int :: "int \<Rightarrow> bytes" where
  "Marshal_int i =
     (let body = marshalInt64 i
      in marshalTagAndLength
           \<lparr>tl_class = 0, tl_tag = 2, tl_length = length body, tl_isCompound = False\<rparr> @ body)"

definition Marshal_bytes :: "bytes \<Rightarrow> bytes" where
  "Marshal_bytes bs =
     marshalTagAndLength
       \<lparr>tl_class = 0, tl_tag = 4, tl_length = length bs, tl_isCompound = False\<rparr> @ bs"

definition Marshal_RawValue :: "RawValue \<Rightarrow> bytes" where
  "Marshal_RawValue rv =
     (if length (FullBytes rv) \<noteq> 0 then FullBytes rv
      else marshalTagAndLength
             \<lparr>tl_class = Class rv, tl_tag = Tag rv, tl_length = length (Bytes rv),
              tl_isCompound = IsCompound rv\<rparr> @ Bytes rv)"


subsection \<open>What a successful decoding consumes\<close>

text \<open>
  A decoder that succeeds has read a header of at least two octets from the front of its
  input, and succeeds in the same way, with the same result, when more bytes follow
  the input. These facts give the termination of the recursive filter parser and the
  behaviour of the parsers on truncated input.
\<close>

lemma parseBase128Int_suffix:
  "parseBase128Int bs s a = Inr (t, r) \<Longrightarrow> \<exists>h. bs = h @ r \<and> h \<noteq> []"
proof (induction bs s a rule: parseBase128Int.induct)
  case (1 shifted ret64)
  then show ?case by simp
next
  case (2 b bs shifted ret64)
  show ?case
  proof (cases "b AND 0x80 = 0")
    case True
    with "2.prems" have "r = bs"
      by (auto simp: Let_def split: if_splits)
    then show ?thesis by (intro exI [of _ "[b]"]) simp
  next
    case False
    with "2.prems" have ok: "shifted \<noteq> 5" "\<not> (shifted = 0 \<and> b = 0x80)"
      and rec: "parseBase128Int bs (Suc shifted) (push_bit 7 ret64 OR uint (b AND 0x7f)) = Inr (t, r)"
      by (auto simp: Let_def split: if_splits)
    from "2.IH" [OF ok refl False rec] obtain h where "bs = h @ r" by blast
    then show ?thesis by (intro exI [of _ "b # h"]) simp
  qed
qed

lemma parseBase128Int_append:
  "parseBase128Int bs s a = Inr (t, r) \<Longrightarrow> parseBase128Int (bs @ ys) s a = Inr (t, r @ ys)"
  by (induction bs s a rule: parseBase128Int.induct) (auto simp: Let_def split: if_splits)

lemma parseLength_loop_suffix:
  "parseLength_loop n bs len = Inr (l, r) \<Longrightarrow> \<exists>h. bs = h @ r \<and> length h = n"
proof (induction n bs len rule: parseLength_loop.induct)
  case (1 bs len)
  then show ?case by simp
next
  case (2 n len)
  then show ?case by simp
next
  case (3 n b bs len)
  from "3.prems" have ok: "\<not> len \<ge> 2 ^ 23" "push_bit 8 len OR unat b \<noteq> 0"
    and rec: "parseLength_loop n bs (push_bit 8 len OR unat b) = Inr (l, r)"
    by (auto simp: Let_def split: if_splits)
  from "3.IH" [OF ok(1) refl ok(2) rec] obtain h where "bs = h @ r" "length h = n" by blast
  then show ?case by (intro exI [of _ "b # h"]) simp
qed

lemma parseLength_loop_append:
  "parseLength_loop n bs len = Inr (l, r) \<Longrightarrow> parseLength_loop n (bs @ ys) len = Inr (l, r @ ys)"
  by (induction n bs len rule: parseLength_loop.induct) (auto simp: Let_def split: if_splits)

lemma parseTag_suffix:
  "parseTag b bs = Inr (t, r) \<Longrightarrow> \<exists>h. bs = h @ r"
  by (auto simp: parseTag_def split: if_splits sum.splits dest: parseBase128Int_suffix)

lemma parseTag_append:
  assumes "parseTag b bs = Inr (t, r)"
  shows "parseTag b (bs @ ys) = Inr (t, r @ ys)"
proof (cases "uint (b AND 0x1f) = 0x1f")
  case True
  with assms have "parseBase128Int bs 0 0 = Inr (t, r)" and "\<not> t < 0x1f"
    by (auto simp: parseTag_def split: sum.splits if_splits)
  with True show ?thesis
    by (simp add: parseTag_def parseBase128Int_append)
next
  case False
  with assms show ?thesis by (simp add: parseTag_def)
qed

lemma parseLength_suffix:
  "parseLength bs = Inr (l, r) \<Longrightarrow> \<exists>h. bs = h @ r \<and> h \<noteq> []"
proof (cases bs)
  case Nil
  then show "parseLength bs = Inr (l, r) \<Longrightarrow> ?thesis" by (simp add: parseLength_def)
next
  case (Cons x xs)
  assume p: "parseLength bs = Inr (l, r)"
  show ?thesis
  proof (cases "x AND 0x80 = 0")
    case True
    with p Cons have "r = xs" by (simp add: parseLength_def)
    with Cons show ?thesis by (intro exI [of _ "[x]"]) simp
  next
    case False
    with p Cons obtain l' where "parseLength_loop (unat (x AND 0x7f)) xs 0 = Inr (l', r)"
      by (auto simp: parseLength_def Let_def split: if_splits sum.splits)
    then obtain h where "xs = h @ r" by (blast dest: parseLength_loop_suffix)
    with Cons show ?thesis by (intro exI [of _ "x # h"]) simp
  qed
qed

lemma parseLength_append:
  assumes "parseLength bs = Inr (l, r)"
  shows "parseLength (bs @ ys) = Inr (l, r @ ys)"
proof (cases bs)
  case Nil
  with assms show ?thesis by (simp add: parseLength_def)
next
  case (Cons x xs)
  show ?thesis
  proof (cases "x AND 0x80 = 0")
    case True
    with assms Cons show ?thesis by (simp add: parseLength_def)
  next
    case False
    with assms Cons have "parseLength_loop (unat (x AND 0x7f)) xs 0 = Inr (l, r)"
      and "unat (x AND 0x7f) \<noteq> 0" and "\<not> l < 0x80"
      by (auto simp: parseLength_def Let_def split: if_splits sum.splits)
    with False Cons show ?thesis
      by (simp add: parseLength_def parseLength_loop_append)
  qed
qed

lemma parseTagAndLength_suffix:
  assumes "parseTagAndLength b = Inr (t, r)"
  shows "\<exists>h. b = h @ r \<and> 2 \<le> length h"
proof -
  from assms obtain x xs tg r1
    where b: "b = x # xs" and tg: "parseTag x xs = Inr (tg, r1)"
      and len: "parseLength r1 = Inr (tl_length t, r)"
    by (auto simp: parseTagAndLength_def split: list.splits sum.splits)
  from tg obtain h1 where h1: "xs = h1 @ r1" by (blast dest: parseTag_suffix)
  from len obtain h2 where h2: "r1 = h2 @ r" "h2 \<noteq> []" by (blast dest: parseLength_suffix)
  have "b = (x # h1 @ h2) @ r" using b h1 h2 by simp
  moreover have "2 \<le> length (x # h1 @ h2)" using h2(2) by (cases h2) simp_all
  ultimately show ?thesis by blast
qed

lemma parseTagAndLength_append:
  assumes "parseTagAndLength b = Inr (t, r)"
  shows "parseTagAndLength (b @ ys) = Inr (t, r @ ys)"
proof -
  from assms obtain x xs tg r1 l
    where b: "b = x # xs" and tg: "parseTag x xs = Inr (tg, r1)"
      and len: "parseLength r1 = Inr (l, r)"
      and t: "t = \<lparr>tl_class = uint (drop_bit 6 x), tl_tag = tg, tl_length = l,
                          tl_isCompound = (x AND 0x20 = 0x20)\<rparr>"
    by (auto simp: parseTagAndLength_def split: list.splits sum.splits)
  show ?thesis
    using b t parseTag_append [OF tg, of ys] parseLength_append [OF len, of ys]
    by (simp add: parseTagAndLength_def)
qed

lemma Unmarshal_RawValue_shape:
  assumes "Unmarshal_RawValue b = Inr (rv, rest)"
  shows "\<exists>h. b = h @ Bytes rv @ rest \<and> FullBytes rv = h @ Bytes rv \<and> 2 \<le> length h"
proof -
  from assms obtain t r where p: "parseTagAndLength b = Inr (t, r)"
    and le: "tl_length t \<le> length r"
    and rv: "rv = \<lparr>Class = tl_class t, Tag = tl_tag t, IsCompound = tl_isCompound t,
                     Bytes = take (tl_length t) r,
                     FullBytes = take (length b - length r + tl_length t) b\<rparr>"
    and rest: "rest = drop (tl_length t) r"
    by (auto simp: Unmarshal_RawValue_def split: if_splits sum.splits)
  from parseTagAndLength_suffix [OF p] obtain h where h: "b = h @ r" "2 \<le> length h" by blast
  have "b = h @ Bytes rv @ rest" using h rv rest by simp
  moreover have "FullBytes rv = h @ Bytes rv" using h rv le by simp
  ultimately show ?thesis using h(2) by blast
qed

lemma Unmarshal_RawValue_length:
  assumes "Unmarshal_RawValue b = Inr (rv, rest)"
  shows "length (FullBytes rv) \<le> length b" "length (Bytes rv) < length b" "length rest < length b"
    "length (Bytes rv) < length (FullBytes rv)"
proof -
  from Unmarshal_RawValue_shape [OF assms] obtain h
    where "b = h @ Bytes rv @ rest" "FullBytes rv = h @ Bytes rv" "2 \<le> length h" by blast
  then have "length b = length h + length (Bytes rv) + length rest" 
    "length (FullBytes rv) = length h + length (Bytes rv)" "2 \<le> length h"
    by (metis length_append add.assoc)+
  then show "length (FullBytes rv) \<le> length b" "length (Bytes rv) < length b" "length rest < length b"
    "length (Bytes rv) < length (FullBytes rv)"
    by linarith+
qed

lemma Unmarshal_RawValue_truncated:
  assumes whole: "Unmarshal_RawValue m = Inr (rv, [])" and k: "k < length m"
  shows "\<exists>e. Unmarshal_RawValue (take k m) = Inl e"
proof (cases "Unmarshal_RawValue (take k m)")
  case (Inl e)
  then show ?thesis by blast
next
  case (Inr res)
  then obtain t r where p: "parseTagAndLength (take k m) = Inr (t, r)"
    and le: "tl_length t \<le> length r"
    by (auto simp: Unmarshal_RawValue_def split: if_splits sum.splits)
  from parseTagAndLength_append [OF p, of "drop k m"]
  have pm: "parseTagAndLength m = Inr (t, r @ drop k m)" by simp
  from whole pm have "drop (tl_length t) (r @ drop k m) = []"
    by (auto simp: Unmarshal_RawValue_def split: if_splits)
  then have "length (r @ drop k m) \<le> tl_length t"
    by (simp only: drop_eq_Nil)
  with le k show ?thesis by simp
qed

section \<open>Package \<^verbatim>\<open>ldap\<close>: errors and result codes\<close>

record LDAPError =
  ResultCode :: int
  Message :: string

definition NewLDAPError :: "int \<Rightarrow> string \<Rightarrow> LDAPError" where
  "NewLDAPError rc msg = \<lparr>ResultCode = rc, Message = msg\<rparr>"

abbreviation (input) ResultCodeSuccess :: int where "ResultCodeSuccess \<equiv> 0"
abbreviation (input) ResultCodeOperationsError :: int where "ResultCodeOperationsError \<equiv> 1"
abbreviation (input) ResultCodeProtocolError :: int where "ResultCodeProtocolError \<equiv> 2"
abbreviation (input) ResultCodeNoSuchObject :: int where "ResultCodeNoSuchObject \<equiv> 32"
abbreviation (input) ResultCodeInvalidCredentials :: int where "ResultCodeInvalidCredentials \<equiv> 49"

text \<open>
  A Go function with results \<^verbatim>\<open>(v, err)\<close> returns a pair whose second component is
  \<open>None\<close> for a nil error. A result that is a pointer or an interface is an option, \<open>None\<close>
  for nil, unless the function can only return it non-nil. A run-time panic is a value
  of its own: a nil pointer dereference, an index out of range, or a failed type
  assertion on an interface value.
\<close>

datatype panic = NilDereference | IndexOutOfRange | InterfaceConversion

section \<open>BindRequest and its authentication choice\<close>

record SaslCredentials =
  Mechanism :: bytes
  Credentials :: bytes

datatype AuthenticationChoice = Simple bytes | Sasl SaslCredentials

record BindRequest =
  Version :: int
  Name :: bytes
  Authentication :: "AuthenticationChoice option"

definition BindRequest_Class :: "BindRequest \<Rightarrow> int" where
  "BindRequest_Class br = 1"

definition BindRequest_Tag :: "BindRequest \<Rightarrow> int" where
  "BindRequest_Tag br = 0"

definition Simple_Class :: "bytes \<Rightarrow> int" where
  "Simple_Class s = 2"

definition Simple_Tag :: "bytes \<Rightarrow> int" where
  "Simple_Tag s = 0"

definition Simple_Bytes :: "bytes \<Rightarrow> bytes" where
  "Simple_Bytes s =
     Marshal_RawValue \<lparr>Class = Simple_Class s, Tag = Simple_Tag s, IsCompound = False,
                       Bytes = s, FullBytes = []\<rparr>"

definition ParseSimple :: "bytes \<Rightarrow> bytes \<times> LDAPError option" where
  "ParseSimple b = (b, None)"

definition SaslCredentials_Class :: "SaslCredentials \<Rightarrow> int" where
  "SaslCredentials_Class s = 2"

definition SaslCredentials_Tag :: "SaslCredentials \<Rightarrow> int" where
  "SaslCredentials_Tag s = 3"

definition SaslCredentials_Bytes :: "SaslCredentials \<Rightarrow> bytes" where
  "SaslCredentials_Bytes s =
     Marshal_RawValue \<lparr>Class = 0, Tag = 16, IsCompound = True,
                       Bytes = Marshal_bytes (Mechanism s) @ Marshal_bytes (Credentials s),
                       FullBytes = []\<rparr>"

text \<open>\<^verbatim>\<open>ParseSaslCredentials\<close> returns its freshly allocated \<^verbatim>\<open>sasl\<close> on every path, with the
  fields decoded so far.\<close>

definition ParseSaslCredentials :: "bytes \<Rightarrow> SaslCredentials \<times> LDAPError option" where
  "ParseSaslCredentials b =
     (let sasl = \<lparr>Mechanism = [], Credentials = []\<rparr> in
      case Unmarshal_RawValue b of
        Inl e \<Rightarrow> (sasl, Some (NewLDAPError ResultCodeProtocolError ''Invalid sequence''))
      | Inr (rawSequence, r) \<Rightarrow>
          if Class rawSequence \<noteq> SaslCredentials_Class sasl
          then (sasl, Some (NewLDAPError ResultCodeProtocolError ''Invalid class''))
          else if Tag rawSequence \<noteq> SaslCredentials_Tag sasl
          then (sasl, Some (NewLDAPError ResultCodeProtocolError ''Invalid tag''))
          else
            (case Unmarshal_bytes (Bytes rawSequence) of
               Inl e \<Rightarrow>
                 (sasl, Some (NewLDAPError ResultCodeProtocolError ''Invalid mechanism field''))
             | Inr (m, rest) \<Rightarrow>
                 if length rest > 0 then
                   (case Unmarshal_bytes rest of
                      Inl e \<Rightarrow>
                        (sasl\<lparr>Mechanism := m\<rparr>,
                         Some (NewLDAPError ResultCodeProtocolError ''Invalid credentials field''))
                    | Inr (c, rest') \<Rightarrow> (sasl\<lparr>Mechanism := m, Credentials := c\<rparr>, None))
                 else (sasl\<lparr>Mechanism := m\<rparr>, None)))"

text \<open>\<^verbatim>\<open>br.Authentication.Bytes()\<close>: the method of the value held by the interface; a nil
  interface panics.\<close>

definition AuthenticationChoice_Bytes :: "AuthenticationChoice option \<Rightarrow> panic + bytes" where
  "AuthenticationChoice_Bytes a =
     (case a of
        None \<Rightarrow> Inl NilDereference
      | Some (Simple s) \<Rightarrow> Inr (Simple_Bytes s)
      | Some (Sasl s) \<Rightarrow> Inr (SaslCredentials_Bytes s))"

text \<open>\<^verbatim>\<open>BindRequest.Bytes\<close>. Its error result is always nil (neither \<^verbatim>\<open>asn1.Marshal\<close> on
  these types nor \<^verbatim>\<open>bytes.Buffer.Write\<close> fails), so the model returns the bytes.\<close>

definition BindRequest_Bytes :: "BindRequest \<Rightarrow> panic + bytes" where
  "BindRequest_Bytes br =
     (let version = Marshal_int (Version br);
          name = Marshal_bytes (Name br)
      in case AuthenticationChoice_Bytes (Authentication br) of
           Inl p \<Rightarrow> Inl p
         | Inr auth \<Rightarrow>
             Inr (Marshal_RawValue
                    \<lparr>Class = BindRequest_Class br, Tag = BindRequest_Tag br, IsCompound = True,
                     Bytes = version @ name @ auth, FullBytes = []\<rparr>))"

definition NewBindRequest :: "int \<Rightarrow> bytes \<Rightarrow> BindRequest" where
  "NewBindRequest version name = \<lparr>Version = version, Name = name, Authentication = None\<rparr>"

text \<open>\<^verbatim>\<open>ParseBindRequest\<close>: \<^verbatim>\<open>req\<close> is allocated first and returned, with the fields decoded so
  far, on every path but the two that return \<^verbatim>\<open>nil, err\<close>. The switch on \<^verbatim>\<open>auth.Tag\<close> has
  the cases 0 and 3 and no default; the check of the version that follows it, on all
  three ways out of the switch, is the local function \<open>checkVersion\<close>.\<close>

definition ParseBindRequest :: "bytes \<Rightarrow> BindRequest option \<times> LDAPError option" where
  "ParseBindRequest b =
     (let req = \<lparr>Version = 0, Name = [], Authentication = None\<rparr> in
      case Unmarshal_RawValue b of
        Inl e \<Rightarrow> (Some req, Some (NewLDAPError ResultCodeProtocolError ''Invalid sequence''))
      | Inr (rawSequence, r) \<Rightarrow>
          if Class rawSequence \<noteq> BindRequest_Class req
          then (Some req, Some (NewLDAPError ResultCodeProtocolError ''Invalid class''))
          else if Tag rawSequence \<noteq> BindRequest_Tag req
          then (Some req, Some (NewLDAPError ResultCodeProtocolError ''Invalid tag''))
          else
            (case Unmarshal_int (Bytes rawSequence) of
               Inl e \<Rightarrow>
                 (Some req, Some (NewLDAPError ResultCodeProtocolError ''Invalid version field''))
             | Inr (version, rest) \<Rightarrow>
                 let req = req\<lparr>Version := version\<rparr> in
                 (case Unmarshal_bytes rest of
                    Inl e \<Rightarrow>
                      (Some req, Some (NewLDAPError ResultCodeProtocolError ''Invalid name field''))
                  | Inr (name, rest) \<Rightarrow>
                      let req = req\<lparr>Name := name\<rparr> in
                      (case Unmarshal_RawValue rest of
                         Inl e \<Rightarrow>
                           (Some req,
                            Some (NewLDAPError ResultCodeProtocolError
                                    ''Invalid authentication field''))
                       | Inr (auth, rest) \<Rightarrow>
                           let checkVersion = (\<lambda>req.
                                 if Version req \<noteq> 3
                                 then (Some req,
                                       Some (NewLDAPError ResultCodeProtocolError
                                               ''Unsupported version''))
                                 else (Some req, None))
                           in
                           if Tag auth = 0 then
                             (case ParseSimple (FullBytes auth) of
                                (simple, Some err) \<Rightarrow>
                                  (None, Some (NewLDAPError ResultCodeProtocolError
                                                 ''Invalid simple field''))
                              | (simple, None) \<Rightarrow>
                                  checkVersion (req\<lparr>Authentication := Some (Simple simple)\<rparr>))
                           else if Tag auth = 3 then
                             (case ParseSaslCredentials (FullBytes auth) of
                                (sasl, Some err) \<Rightarrow>
                                  (None, Some (NewLDAPError ResultCodeProtocolError
                                                 ''Invalid sasl field''))
                              | (sasl, None) \<Rightarrow>
                                  checkVersion (req\<lparr>Authentication := Some (Sasl sasl)\<rparr>))
                           else checkVersion req))))"

section \<open>SearchRequest and the filter grammar\<close>

text \<open>
  A \<^verbatim>\<open>Filter\<close> is an interface value: \<open>NilFilter\<close> is the nil interface, which
  \<^verbatim>\<open>ParseFilter\<close> returns without an error for the choices it only prints (tags 2, 4, 5, 6,
  8 and 9).
\<close>


record AttributeValueAssertion =
  AttributeDesc :: bytes
  AssertionValue :: bytes

datatype Filter =
    NilFilter
  | And "Filter list"
  | Or "Filter list"
  | EqualityMatch AttributeValueAssertion
  | Present bytes

definition ParseEqualityMatch :: "bytes \<Rightarrow> AttributeValueAssertion \<times> LDAPError option" where
  "ParseEqualityMatch b =
     (let em = \<lparr>AttributeDesc = [], AssertionValue = []\<rparr> in
      case Unmarshal_RawValue b of
        Inl e \<Rightarrow> (em, Some (NewLDAPError ResultCodeProtocolError ''Invalid sequence''))
      | Inr (rawSequence, r) \<Rightarrow>
          (case Unmarshal_bytes (Bytes rawSequence) of
             Inl e \<Rightarrow>
               (em, Some (NewLDAPError ResultCodeProtocolError ''Invalid attributeDesc field''))
           | Inr (desc, rest) \<Rightarrow>
               (case Unmarshal_bytes rest of
                  Inl e \<Rightarrow>
                    (em\<lparr>AttributeDesc := desc\<rparr>,
                     Some (NewLDAPError ResultCodeProtocolError ''Invalid assertionValue field''))
                | Inr (v, rest') \<Rightarrow> (em\<lparr>AttributeDesc := desc, AssertionValue := v\<rparr>, None))))"

definition ParsePresent :: "bytes \<Rightarrow> bytes option \<times> LDAPError option" where
  "ParsePresent b =
     (case Unmarshal_RawValue b of
        Inl e \<Rightarrow> (None, Some (NewLDAPError ResultCodeProtocolError ''Invalid present''))
      | Inr (rawPresent, r) \<Rightarrow> (Some (Bytes rawPresent), None))"

function ParseFilter :: "bytes \<Rightarrow> Filter \<times> LDAPError option"
  and ParseAnd :: "bytes \<Rightarrow> Filter list \<times> LDAPError option"
  and ParseAnd_loop :: "bytes \<Rightarrow> Filter list \<Rightarrow> Filter list \<times> LDAPError option"
  and ParseOr :: "bytes \<Rightarrow> Filter list \<times> LDAPError option"
  and ParseOr_loop :: "bytes \<Rightarrow> Filter list \<Rightarrow> Filter list \<times> LDAPError option"
where
  "ParseFilter b =
     (case Unmarshal_RawValue b of
        Inl e \<Rightarrow> (NilFilter, Some (NewLDAPError ResultCodeProtocolError ''Invalid sequence''))
      | Inr (rawSequence, r) \<Rightarrow>
          if Tag rawSequence = 0 then
            (case ParseAnd (FullBytes rawSequence) of
               (a, Some err) \<Rightarrow> (NilFilter, Some err)
             | (a, None) \<Rightarrow> (And a, None))
          else if Tag rawSequence = 1 then
            (case ParseOr (FullBytes rawSequence) of
               (o1, Some err) \<Rightarrow> (NilFilter, Some err)
             | (o1, None) \<Rightarrow> (Or o1, None))
          else if Tag rawSequence = 2 then (NilFilter, None)
          else if Tag rawSequence = 3 then
            (case ParseEqualityMatch (FullBytes rawSequence) of
               (em, Some err) \<Rightarrow> (NilFilter, Some err)
             | (em, None) \<Rightarrow> (EqualityMatch em, None))
          else if Tag rawSequence = 4 then (NilFilter, None)
          else if Tag rawSequence = 5 then (NilFilter, None)
          else if Tag rawSequence = 6 then (NilFilter, None)
          else if Tag rawSequence = 7 then
            (case ParsePresent (FullBytes rawSequence) of
               (Some p, None) \<Rightarrow> (Present p, None)
             | (None, None) \<Rightarrow> (NilFilter, None)
             | (p, Some err) \<Rightarrow> (NilFilter, Some err))
          else if Tag rawSequence = 8 then (NilFilter, None)
          else if Tag rawSequence = 9 then (NilFilter, None)
          else (NilFilter, Some (NewLDAPError ResultCodeProtocolError ''Invalid tag'')))"
| "ParseAnd b =
     (case Unmarshal_RawValue b of
        Inl e \<Rightarrow> ([], Some (NewLDAPError ResultCodeProtocolError ''Invalid and''))
      | Inr (rawAnd, r) \<Rightarrow> ParseAnd_loop (Bytes rawAnd) [])"
| "ParseAnd_loop rest a =
     (if length rest > 0 then
        (case Unmarshal_RawValue rest of
           Inl e \<Rightarrow> ([], Some (NewLDAPError ResultCodeProtocolError ''Invalid filter''))
         | Inr (rawFilter, rest') \<Rightarrow>
             (case ParseFilter (FullBytes rawFilter) of
                (f, Some err) \<Rightarrow> ([], Some err)
              | (f, None) \<Rightarrow> ParseAnd_loop rest' (a @ [f])))
      else (a, None))"
| "ParseOr b =
     (case Unmarshal_RawValue b of
        Inl e \<Rightarrow> ([], Some (NewLDAPError ResultCodeProtocolError ''Invalid or''))
      | Inr (rawOr, r) \<Rightarrow> ParseOr_loop (Bytes rawOr) [])"
| "ParseOr_loop rest o1 =
     (if length rest > 0 then
        (case Unmarshal_RawValue rest of
           Inl e \<Rightarrow> ([], Some (NewLDAPError ResultCodeProtocolError ''Invalid filter''))
         | Inr (rawFilter, rest') \<Rightarrow>
             (case ParseFilter (FullBytes rawFilter) of
                (f, Some err) \<Rightarrow> ([], Some err)
              | (f, None) \<Rightarrow> ParseOr_loop rest' (o1 @ [f])))
      else (o1, None))"
  by pat_completeness auto
termination
  apply (relation "measure (\<lambda>x. case x of
            Inl (Inl b) \<Rightarrow> 3 * length b + 2
          | Inl (Inr b) \<Rightarrow> 3 * length b + 1
          | Inr (Inl (rest, a)) \<Rightarrow> 3 * length rest + 3
          | Inr (Inr (Inl b)) \<Rightarrow> 3 * length b + 1
          | Inr (Inr (Inr (rest, a))) \<Rightarrow> 3 * length rest + 3)")
  apply simp
  apply (auto dest: Unmarshal_RawValue_length)
  done


text \<open>The loop of \<^verbatim>\<open>ParseAttributeSelection\<close>; an element that does not decode ends it with
  the selectors collected so far and the error.\<close>

function ParseAttributeSelection_loop :: "bytes \<Rightarrow> bytes list \<Rightarrow> bytes list \<times> LDAPError option" where
  "ParseAttributeSelection_loop rest attr =
     (if length rest \<noteq> 0 then
        (case Unmarshal_RawValue rest of
           Inl e \<Rightarrow> (attr, Some (NewLDAPError ResultCodeProtocolError ''Invalid attributes''))
         | Inr (rawAttr, rest') \<Rightarrow> ParseAttributeSelection_loop rest' (attr @ [Bytes rawAttr]))
      else (attr, None))"
  by pat_completeness auto
termination
  by (relation "measure (\<lambda>(rest, attr). length rest)") (auto dest: Unmarshal_RawValue_length)

declare ParseAttributeSelection_loop.simps [simp del]

definition ParseAttributeSelection :: "bytes \<Rightarrow> bytes list \<times> LDAPError option" where
  "ParseAttributeSelection b =
     (case Unmarshal_RawValue b of
        Inl e \<Rightarrow> ([], Some (NewLDAPError ResultCodeProtocolError ''Invalid sequence''))
      | Inr (rawSequence, r) \<Rightarrow> ParseAttributeSelection_loop (Bytes rawSequence) [])"

record SearchRequest =
  BaseObject :: bytes
  Scope :: int
  DerefAliases :: int
  SizeLimit :: int
  TimeLimit :: int
  TypesOnly :: bool
  Filter :: Filter
  Attributes :: "bytes list"

text \<open>The constant block of the source gives \<^verbatim>\<open>ScopeBaseObject\<close> the value 0 and lists
  the other two names without a value and without \<^verbatim>\<open>iota\<close>, so Go repeats the
  expression \<^verbatim>\<open>0\<close> for them.\<close>

definition ScopeBaseObject :: int where "ScopeBaseObject = 0"
definition ScopeSingleLevel :: int where "ScopeSingleLevel = 0"
definition ScopeWholeSubtree :: int where "ScopeWholeSubtree = 0"

definition SearchRequest_Class :: "SearchRequest \<Rightarrow> int" where
  "SearchRequest_Class sr = 1"

definition SearchRequest_Tag :: "SearchRequest \<Rightarrow> int" where
  "SearchRequest_Tag sr = 3"

definition SearchRequest_Bytes :: "SearchRequest \<Rightarrow> bytes" where
  "SearchRequest_Bytes sr = []"

definition new_SearchRequest :: SearchRequest where
  "new_SearchRequest =
     \<lparr>BaseObject = [], Scope = 0, DerefAliases = 0, SizeLimit = 0, TimeLimit = 0,
      TypesOnly = False, Filter = NilFilter, Attributes = []\<rparr>"

text \<open>
  \<^verbatim>\<open>ParseSearchRequest\<close> returns its freshly allocated \<^verbatim>\<open>req\<close> on every path. Reading
  \<^verbatim>\<open>scope.Bytes[0]\<close> and \<^verbatim>\<open>derefAliases.Bytes[0]\<close> panics when the element has no content
  octets. The error of \<^verbatim>\<open>ParseFilter\<close> is assigned to \<^verbatim>\<open>err\<close> and overwritten by the next
  \<^verbatim>\<open>asn1.Unmarshal\<close>; the error of \<^verbatim>\<open>ParseAttributeSelection\<close> is the one returned.
  The body of the function is written in two parts: \<open>ParseSearchRequest_tail\<close> is the
  part from \<^verbatim>\<open>sizeLimit\<close> on, which cannot panic.
\<close>

definition ParseSearchRequest_tail :: "SearchRequest \<Rightarrow> bytes \<Rightarrow> SearchRequest \<times> LDAPError option" where
  "ParseSearchRequest_tail req rest =
     (case Unmarshal_int rest of
        Inl e \<Rightarrow> (req, Some (NewLDAPError ResultCodeProtocolError ''Invalid sizeLimit field''))
      | Inr (sizeLimit, rest) \<Rightarrow>
          let req = req\<lparr>SizeLimit := sizeLimit\<rparr> in
          (case Unmarshal_int rest of
             Inl e \<Rightarrow>
               (req, Some (NewLDAPError ResultCodeProtocolError ''Invalid timeLimit field''))
           | Inr (timeLimit, rest) \<Rightarrow>
               let req = req\<lparr>TimeLimit := timeLimit\<rparr> in
               (case Unmarshal_bool rest of
                  Inl e \<Rightarrow>
                    (req, Some (NewLDAPError ResultCodeProtocolError ''Invalid typesOnly field''))
                | Inr (typesOnly, rest) \<Rightarrow>
                    let req = req\<lparr>TypesOnly := typesOnly\<rparr> in
                    (case Unmarshal_RawValue rest of
                       Inl e \<Rightarrow>
                         (req, Some (NewLDAPError ResultCodeProtocolError
                                       ''Invalid filter field''))
                     | Inr (rawFilter, rest) \<Rightarrow>
                         let req = req\<lparr>Filter := fst (ParseFilter (FullBytes rawFilter))\<rparr> in
                         (case Unmarshal_RawValue rest of
                            Inl e \<Rightarrow>
                              (req, Some (NewLDAPError ResultCodeProtocolError
                                            ''Invalid attributes field''))
                          | Inr (attributes, rest) \<Rightarrow>
                              (case ParseAttributeSelection (FullBytes attributes) of
                                 (attrs, err) \<Rightarrow> (req\<lparr>Attributes := attrs\<rparr>, err)))))))"

definition ParseSearchRequest :: "bytes \<Rightarrow> panic + (SearchRequest \<times> LDAPError option)" where
  "ParseSearchRequest b =
     (let req = new_SearchRequest in
      case Unmarshal_RawValue b of
        Inl e \<Rightarrow> Inr (req, Some (NewLDAPError ResultCodeProtocolError ''Invalid sequence''))
      | Inr (rawSequence, r) \<Rightarrow>
          if Class rawSequence \<noteq> SearchRequest_Class req
          then Inr (req, Some (NewLDAPError ResultCodeProtocolError ''Invalid class''))
          else if Tag rawSequence \<noteq> SearchRequest_Tag req
          then Inr (req, Some (NewLDAPError ResultCodeProtocolError ''Invalid tag''))
          else
            (case Unmarshal_bytes (Bytes rawSequence) of
               Inl e \<Rightarrow>
                 Inr (req, Some (NewLDAPError ResultCodeProtocolError ''Invalid baseObject field''))
             | Inr (baseObject, rest) \<Rightarrow>
                 let req = req\<lparr>BaseObject := baseObject\<rparr> in
                 (case Unmarshal_RawValue rest of
                    Inl e \<Rightarrow>
                      Inr (req, Some (NewLDAPError ResultCodeProtocolError ''Invalid scope field''))
                  | Inr (scope, rest) \<Rightarrow>
                      (case Bytes scope of
                         [] \<Rightarrow> Inl IndexOutOfRange
                       | s0 # _ \<Rightarrow>
                           let req = req\<lparr>Scope := uint s0\<rparr> in
                           (case Unmarshal_RawValue rest of
                              Inl e \<Rightarrow>
                                Inr (req, Some (NewLDAPError ResultCodeProtocolError
                                                  ''Invalid derefAliases field''))
                            | Inr (derefAliases, rest) \<Rightarrow>
                                (case Bytes derefAliases of
                                   [] \<Rightarrow> Inl IndexOutOfRange
                                 | d0 # _ \<Rightarrow>
                                     Inr (ParseSearchRequest_tail
                                            (req\<lparr>DerefAliases := uint d0\<rparr>) rest)))))))"


text \<open>The \<^verbatim>\<open>Class()\<close> and \<^verbatim>\<open>Tag()\<close> methods of the filter types.\<close>

definition And_Class :: "Filter list \<Rightarrow> int" where "And_Class a = 2"
definition And_Tag :: "Filter list \<Rightarrow> int" where "And_Tag a = 0"
definition Or_Class :: "Filter list \<Rightarrow> int" where "Or_Class o1 = 2"
definition Or_Tag :: "Filter list \<Rightarrow> int" where "Or_Tag o1 = 3"
definition EqualityMatch_Class :: "AttributeValueAssertion \<Rightarrow> int" where
  "EqualityMatch_Class em = 2"
definition EqualityMatch_Tag :: "AttributeValueAssertion \<Rightarrow> int" where
  "EqualityMatch_Tag em = 3"
definition Present_Class :: "bytes \<Rightarrow> int" where "Present_Class p = 2"
definition Present_Tag :: "bytes \<Rightarrow> int" where "Present_Tag p = 7"

section \<open>LDAPResult, BindResponse and the extended operations\<close>

record LDAPResult =
  LDAPResult_ResultCode :: int
  MatchedDN :: bytes
  DiagnosticMessage :: bytes
  Referral :: "bytes list option"

definition Referral_Bytes :: "bytes list \<Rightarrow> bytes" where
  "Referral_Bytes ref = concat (map Marshal_bytes ref)"

definition LDAPResult_bytes :: "LDAPResult \<Rightarrow> bytes" where
  "LDAPResult_bytes lr =
     Marshal_int (LDAPResult_ResultCode lr) @ Marshal_bytes (MatchedDN lr)
       @ Marshal_bytes (DiagnosticMessage lr)
       @ (case Referral lr of None \<Rightarrow> [] | Some ref \<Rightarrow> Referral_Bytes ref)"

record BindResponse =
  BindResponse_LDAPResult :: LDAPResult
  ServerSaslCreds :: bytes

definition BindResponse_Class :: "BindResponse \<Rightarrow> int" where
  "BindResponse_Class br = 1"

definition BindResponse_Tag :: "BindResponse \<Rightarrow> int" where
  "BindResponse_Tag br = 1"

definition BindResponse_Bytes :: "BindResponse \<Rightarrow> bytes" where
  "BindResponse_Bytes br =
     Marshal_RawValue
       \<lparr>Class = 0, Tag = 16, IsCompound = True,
        Bytes = LDAPResult_bytes (BindResponse_LDAPResult br) @ Marshal_bytes (ServerSaslCreds br),
        FullBytes = []\<rparr>"

text \<open>\<^verbatim>\<open>ParseBindResponse\<close> has two named results and an empty body: it returns
  \<^verbatim>\<open>nil, nil\<close>.\<close>

definition ParseBindResponse :: "bytes \<Rightarrow> BindResponse option \<times> LDAPError option" where
  "ParseBindResponse b = (None, None)"

record ExtendedRequest =
  RequestName :: bytes
  RequestValue :: bytes

definition ExtendedRequest_Class :: "ExtendedRequest \<Rightarrow> int" where
  "ExtendedRequest_Class er = 23"

definition ExtendedRequest_Tag :: "ExtendedRequest \<Rightarrow> int" where
  "ExtendedRequest_Tag er = 0"

record ExtendedResponse =
  ResponseName :: bytes
  ResponseValue :: bytes

definition ExtendedResponse_Class :: "ExtendedResponse \<Rightarrow> int" where
  "ExtendedResponse_Class er = 24"

definition ExtendedResponse_Tag :: "ExtendedResponse \<Rightarrow> int" where
  "ExtendedResponse_Tag er = 0"

section \<open>The message envelope\<close>

text \<open>
  \<^verbatim>\<open>ProtocolOp\<close> is an interface; the values stored in it are pointers to a
  \<^verbatim>\<open>BindRequest\<close>, a \<^verbatim>\<open>BindResponse\<close> or a \<^verbatim>\<open>SearchRequest\<close>, each of which may be nil.
  Calling the value method \<^verbatim>\<open>Bytes\<close> through a nil pointer, or on a nil interface,
  panics.
\<close>

datatype ProtocolOp =
    BindRequestOp "BindRequest option"
  | BindResponseOp "BindResponse option"
  | SearchRequestOp "SearchRequest option"

record Control =
  ControlType :: bytes
  Criticality :: bool
  ControlValue :: bytes

record LDAPMessage =
  MessageID :: int
  ProtocolOp :: "ProtocolOp option"
  Controls :: "Control list option"

definition ProtocolOp_Bytes :: "ProtocolOp option \<Rightarrow> panic + bytes" where
  "ProtocolOp_Bytes op =
     (case op of
        None \<Rightarrow> Inl NilDereference
      | Some (BindRequestOp None) \<Rightarrow> Inl NilDereference
      | Some (BindRequestOp (Some br)) \<Rightarrow> BindRequest_Bytes br
      | Some (BindResponseOp None) \<Rightarrow> Inl NilDereference
      | Some (BindResponseOp (Some br)) \<Rightarrow> Inr (BindResponse_Bytes br)
      | Some (SearchRequestOp None) \<Rightarrow> Inl NilDereference
      | Some (SearchRequestOp (Some sr)) \<Rightarrow> Inr (SearchRequest_Bytes sr))"

text \<open>\<^verbatim>\<open>LDAPMessage.Bytes\<close>; the lines that would write the controls are commented out in
  the source.\<close>

definition LDAPMessage_Bytes :: "LDAPMessage \<Rightarrow> panic + bytes" where
  "LDAPMessage_Bytes msg =
     (let msgID = Marshal_int (MessageID msg) in
      case ProtocolOp_Bytes (ProtocolOp msg) of
        Inl p \<Rightarrow> Inl p
      | Inr protocolOp \<Rightarrow>
          Inr (Marshal_RawValue
                 \<lparr>Class = 0, Tag = 16, IsCompound = True, Bytes = msgID @ protocolOp,
                  FullBytes = []\<rparr>))"

definition NewLDAPMessage :: "int \<Rightarrow> ProtocolOp option \<Rightarrow> Control list option \<Rightarrow> LDAPMessage" where
  "NewLDAPMessage msgID op ctrl = \<lparr>MessageID = msgID, ProtocolOp = op, Controls = ctrl\<rparr>"

text \<open>
  \<^verbatim>\<open>ParseLDAPMessage\<close> returns \<^verbatim>\<open>(msg, rest, err)\<close>. \<^verbatim>\<open>msg\<close> is allocated first and is
  returned on the paths that end in a bare \<^verbatim>\<open>return\<close>; the paths through a failed PDU
  parser return \<^verbatim>\<open>nil\<close>. \<^verbatim>\<open>rest\<close> is what follows the envelope, and nil when the
  envelope itself does not decode. The element after the operation is decoded into
  the local \<^verbatim>\<open>rawControls\<close> and not used again.
\<close>

definition ParseLDAPMessage :: "bytes \<Rightarrow> panic + (LDAPMessage option \<times> bytes \<times> LDAPError option)" where
  "ParseLDAPMessage b =
     (let msg = \<lparr>MessageID = 0, ProtocolOp = None, Controls = None\<rparr> in
      case Unmarshal_RawValue b of
        Inl e \<Rightarrow>
          Inr (Some msg, [], Some (NewLDAPError ResultCodeProtocolError ''Invalid LDAPMessage''))
      | Inr (rawEnvelope, rest) \<Rightarrow>
          (case Unmarshal_int (Bytes rawEnvelope) of
             Inl e \<Rightarrow>
               Inr (Some msg, rest,
                    Some (NewLDAPError ResultCodeProtocolError ''Invalid MessageID''))
           | Inr (msgID, r) \<Rightarrow>
               let msg = msg\<lparr>MessageID := msgID\<rparr> in
               (case Unmarshal_RawValue r of
                  Inl e \<Rightarrow>
                    Inr (Some msg, rest,
                         Some (NewLDAPError ResultCodeProtocolError ''Invalid ProtocolOp''))
                | Inr (rawProtocolOp, r) \<Rightarrow>
                    if length r > 0 \<and> isl (Unmarshal_RawValue r) then
                      Inr (Some msg, rest,
                           Some (NewLDAPError ResultCodeProtocolError ''Invalid Controls''))
                    else if Tag rawProtocolOp = 0 then
                      (case ParseBindRequest (FullBytes rawProtocolOp) of
                         (bindReq, Some err) \<Rightarrow> Inr (None, rest, Some err)
                       | (bindReq, None) \<Rightarrow>
                           Inr (Some (msg\<lparr>ProtocolOp := Some (BindRequestOp bindReq)\<rparr>),
                                rest, None))
                    else if Tag rawProtocolOp = 1 then
                      (case ParseBindResponse (FullBytes rawProtocolOp) of
                         (bindRes, Some err) \<Rightarrow> Inr (None, rest, Some err)
                       | (bindRes, None) \<Rightarrow>
                           Inr (Some (msg\<lparr>ProtocolOp := Some (BindResponseOp bindRes)\<rparr>),
                                rest, None))
                    else if Tag rawProtocolOp = 3 then
                      (case ParseSearchRequest (FullBytes rawProtocolOp) of
                         Inl p \<Rightarrow> Inl p
                       | Inr (searchReq, Some err) \<Rightarrow> Inr (None, rest, Some err)
                       | Inr (searchReq, None) \<Rightarrow>
                           Inr (Some (msg\<lparr>ProtocolOp :=
                                           Some (SearchRequestOp (Some searchReq))\<rparr>),
                                rest, None))
                    else
                      Inr (Some msg, rest,
                           Some (NewLDAPError ResultCodeOperationsError
                                   ''Unsupported ProtocolOp'')))))"


section \<open>Package \<^verbatim>\<open>main\<close>: the bind and search handlers\<close>

text \<open>
  The handlers are written against two external libraries: the request accessors and
  filter types of \<^verbatim>\<open>goldap/message\<close> and the response constructors of \<^verbatim>\<open>ldapserver\<close>.
  The model lists the authentication choices and the filter variants of the message
  package as datatypes, and records what a handler passes to \<^verbatim>\<open>w.Write\<close>, in order.
  Logging is left out. A handler that panics has written nothing before, so its result
  is either the panic or the responses written. The backend is the interface
  \<^verbatim>\<open>Backend\<close>; a Go \<^verbatim>\<open>error\<close> of the backend is its message. \<^verbatim>\<open>Get\<close> returns a pointer and
  an error, each of which may be nil; the users that \<^verbatim>\<open>Search\<close> returns are taken to be
  non-nil, as those of \<^verbatim>\<open>EtcdBackend.Search\<close> are. The composition of \<^verbatim>\<open>sha256.Sum256\<close>
  and \<^verbatim>\<open>hex.EncodeToString\<close> is a parameter of \<open>handleBind\<close>.
\<close>

record User =
  Dn :: string
  Cn :: string
  User_Name :: string
  Password :: string
  Email :: string

definition NewUser :: "string \<Rightarrow> string \<Rightarrow> User" where
  "NewUser dn cn = \<lparr>Dn = dn, Cn = cn, User_Name = [], Password = [], Email = []\<rparr>"

record Backend =
  Get :: "string \<Rightarrow> User option \<times> string option"
  Search :: "string \<Rightarrow> (string \<rightharpoonup> string) \<Rightarrow> string + User list"

datatype message_Filter =
    FilterAnd "message_Filter list"
  | FilterOr "message_Filter list"
  | FilterNot message_Filter
  | FilterEqualityMatch string string
  | FilterSubstrings string "string list"
  | FilterGreaterOrEqual string string
  | FilterLessOrEqual string string
  | FilterPresent string
  | FilterApproxMatch string string
  | FilterExtensibleMatch string string

text \<open>The authentication choice of a decoded bind request of the message package:
  the password of a simple bind, or the mechanism and the optional credentials of a
  SASL bind.\<close>

datatype message_AuthenticationChoice =
    AuthenticationSimple string
  | AuthenticationSasl string "string option"

record message_BindRequest =
  bind_Name :: string
  bind_Authentication :: message_AuthenticationChoice

text \<open>The accessor \<^verbatim>\<open>AuthenticationSimple()\<close> of the message package asserts, without a
  check, that the authentication choice is the simple one; on a SASL bind the
  assertion panics.\<close>

definition BindRequest_AuthenticationSimple :: "message_BindRequest \<Rightarrow> panic + string" where
  "BindRequest_AuthenticationSimple req =
     (case bind_Authentication req of
        AuthenticationSimple pw \<Rightarrow> Inr pw
      | AuthenticationSasl mechanism credentials \<Rightarrow> Inl InterfaceConversion)"

record message_SearchRequest =
  search_BaseObject :: string
  search_Filter :: message_Filter
  search_Attributes :: "string list"

abbreviation (input) LDAPResultSuccess :: int where "LDAPResultSuccess \<equiv> 0"
abbreviation (input) LDAPResultOperationsError :: int where "LDAPResultOperationsError \<equiv> 1"
abbreviation (input) LDAPResultNoSuchObject :: int where "LDAPResultNoSuchObject \<equiv> 32"
abbreviation (input) LDAPResultInvalidCredentials :: int where "LDAPResultInvalidCredentials \<equiv> 49"

record ldap_Result =
  resultCode :: int
  diagnosticMessage :: string

datatype Response =
    WriteBindResponse ldap_Result
  | WriteSearchResultEntry string "(string \<times> string) list"
  | WriteSearchResultDone ldap_Result

text \<open>\<open>handleBind\<close>: the password is read with \<^verbatim>\<open>AuthenticationSimple()\<close> before anything
  else is done; after a \<^verbatim>\<open>Get\<close> that returns no error the handler reads
  \<^verbatim>\<open>user.Password\<close>, which panics when the pointer is nil.\<close>

definition handleBind ::
  "(string \<Rightarrow> string) \<Rightarrow> Backend \<Rightarrow> message_BindRequest \<Rightarrow> panic + Response list" where
  "handleBind sha256_hex be req =
     (let res = \<lparr>resultCode = LDAPResultSuccess, diagnosticMessage = []\<rparr>;
          dn = bind_Name req
      in
      case BindRequest_AuthenticationSimple req of
        Inl p \<Rightarrow> Inl p
      | Inr pw \<Rightarrow>
          if dn = [] \<and> pw = [] then Inr [WriteBindResponse res]
          else
            (case Get be dn of
               (user, err) \<Rightarrow>
                 (case err of
                    Some e \<Rightarrow>
                      Inr [WriteBindResponse
                             (res\<lparr>resultCode := LDAPResultNoSuchObject,
                                  diagnosticMessage := ''No such object''\<rparr>)]
                  | None \<Rightarrow>
                      (case user of
                         None \<Rightarrow> Inl NilDereference
                       | Some u \<Rightarrow>
                           if Password u \<noteq> sha256_hex pw then
                             Inr [WriteBindResponse
                                    (res\<lparr>resultCode := LDAPResultInvalidCredentials,
                                         diagnosticMessage := ''Invalid credentials''\<rparr>)]
                           else Inr [WriteBindResponse res]))))"

text \<open>The inner loop of \<open>handleSearch\<close> over the requested attributes.\<close>

definition searchEntry :: "string list \<Rightarrow> User \<Rightarrow> Response" where
  "searchEntry attrs user =
     WriteSearchResultEntry (Dn user)
       (concat (map (\<lambda>attr.
          if attr = ''cn'' then [(''cn'', Cn user)]
          else if attr = ''name'' then [(''name'', User_Name user)]
          else if attr = ''email'' then [(''email'', Email user)]
          else []) attrs))"

text \<open>The type switch of \<open>handleSearch\<close>: the backend filter and the flag
  \<^verbatim>\<open>invalidFilter\<close>.\<close>

definition searchFilter :: "message_Filter \<Rightarrow> (string \<rightharpoonup> string) \<times> bool" where
  "searchFilter f =
     (case f of
        FilterEqualityMatch desc v \<Rightarrow>
          if desc = ''cn'' then (Map.empty(''cn'' \<mapsto> v), False) else (Map.empty, True)
      | _ \<Rightarrow> (Map.empty, True))"

definition handleSearch :: "Backend \<Rightarrow> message_SearchRequest \<Rightarrow> Response list" where
  "handleSearch be req =
     (let res = \<lparr>resultCode = LDAPResultSuccess, diagnosticMessage = []\<rparr> in
      case searchFilter (search_Filter req) of
        (filter1, invalidFilter) \<Rightarrow>
          if invalidFilter then
            [WriteSearchResultDone (res\<lparr>resultCode := LDAPResultOperationsError\<rparr>)]
          else
            (case Search be (search_BaseObject req) filter1 of
               Inl err \<Rightarrow>
                 [WriteSearchResultDone (res\<lparr>resultCode := LDAPResultOperationsError\<rparr>)]
             | Inr users \<Rightarrow>
                 map (searchEntry (search_Attributes req)) users @ [WriteSearchResultDone res]))"


section \<open>Example inputs\<close>

text \<open>A message with ID 2 carrying a search request: base \<^verbatim>\<open>dc\<close>, scope 2, filter
  \<^verbatim>\<open>(cn=x)\<close>, attribute \<^verbatim>\<open>cn\<close>.\<close>

definition example_search_message :: bytes where
  "example_search_message =
     [0x30, 0x27, 2, 1, 2,
      0x63, 0x22, 4, 2, 0x64, 0x63, 0x0a, 1, 2, 0x0a, 1, 0, 2, 1, 0, 2, 1, 0, 1, 1, 0,
      0xa3, 7, 4, 2, 0x63, 0x6e, 4, 1, 0x78, 0x30, 4, 4, 2, 0x63, 0x6e]"

text \<open>The search request of that message on its own, and the same request with the
  scope octet 7.\<close>

definition example_search_scope2 :: bytes where
  "example_search_scope2 =
     [0x63, 0x22, 4, 2, 0x64, 0x63, 0x0a, 1, 2, 0x0a, 1, 0, 2, 1, 0, 2, 1, 0, 1, 1, 0,
      0xa3, 7, 4, 2, 0x63, 0x6e, 4, 1, 0x78, 0x30, 4, 4, 2, 0x63, 0x6e]"

definition example_search_scope7 :: bytes where
  "example_search_scope7 =
     [0x63, 0x22, 4, 2, 0x64, 0x63, 0x0a, 1, 7, 0x0a, 1, 0, 2, 1, 0, 2, 1, 0, 1, 1, 0,
      0xa3, 7, 4, 2, 0x63, 0x6e, 4, 1, 0x78, 0x30, 4, 4, 2, 0x63, 0x6e]"

text \<open>A backend with one entry, a stand-in for the hash, and a backend whose calls all
  fail as the etcd client does when no endpoint can be reached.\<close>

definition example_user :: User where
  "example_user =
     \<lparr>Dn = ''cn=mark,ou=People,dc=example,dc=com'', Cn = ''mark'', User_Name = ''Mark'',
      Password = ''hash(secret)'', Email = ''mark@example.com''\<rparr>"

definition example_hash :: "string \<Rightarrow> string" where
  "example_hash pw = ''hash('' @ pw @ '')''"

definition example_backend :: Backend where
  "example_backend =
     \<lparr>Get = (\<lambda>dn. if dn = ''cn=mark,ou=People,dc=example,dc=com''
                  then (Some example_user, None)
                  else (None, Some ''100: Key not found'')),
      Search = (\<lambda>baseDn f. if f ''cn'' = None \<or> f ''cn'' = Some ''mark''
                             then Inr [example_user] else Inr [])\<rparr>"

definition failing_backend :: Backend where
  "failing_backend =
     \<lparr>Get = (\<lambda>dn. (None, Some ''client: etcd cluster is unavailable or misconfigured'')),
      Search = (\<lambda>baseDn f. Inl ''client: etcd cluster is unavailable or misconfigured'')\<rparr>"

text \<open>The filter variants that the specification lists as evaluated by search dispatch
  (And, Or, EqualityMatch and Present, nested through And and Or), written from the
  specification's words, to be compared with what \<open>handleSearch\<close> does.\<close>

fun spec_evaluated_variant :: "message_Filter \<Rightarrow> bool" where
  "spec_evaluated_variant (FilterAnd fs) = (\<forall>f \<in> set fs. spec_evaluated_variant f)"
| "spec_evaluated_variant (FilterOr fs) = (\<forall>f \<in> set fs. spec_evaluated_variant f)"
| "spec_evaluated_variant (FilterEqualityMatch d v) = True"
| "spec_evaluated_variant (FilterPresent d) = True"
| "spec_evaluated_variant _ = False"

section \<open>Properties of the decoders\<close>

lemma ParseBindRequest_error_code:
  assumes "snd (ParseBindRequest b) = Some e"
  shows "ResultCode e = ResultCodeProtocolError"
  using assms
  by (auto simp: ParseBindRequest_def ParseSimple_def NewLDAPError_def Let_def
      split: sum.splits prod.splits option.splits if_splits)

lemma ParseLDAPMessage_Controls:
  assumes "ParseLDAPMessage b = Inr (Some msg, rest, err)"
  shows "Controls msg = None"
  using assms
  by (auto simp: ParseLDAPMessage_def Let_def ParseBindResponse_def
      split: sum.splits prod.splits option.splits if_splits)

lemma ParseAttributeSelection_loop_error:
  "snd (ParseAttributeSelection_loop rest attr) = Some e \<Longrightarrow>
     e = NewLDAPError ResultCodeProtocolError ''Invalid attributes''"
proof (induction rest attr rule: ParseAttributeSelection_loop.induct)
  case (1 rest attr)
  show ?case
  proof (cases "length rest \<noteq> 0")
    case False
    with "1.prems" show ?thesis
      by (simp add: ParseAttributeSelection_loop.simps [of rest])
  next
    case True
    show ?thesis
    proof (cases "Unmarshal_RawValue rest")
      case (Inl a)
      with "1.prems" True show ?thesis
        by (simp add: ParseAttributeSelection_loop.simps [of rest])
    next
      case (Inr p)
      obtain rawAttr rest' where p: "p = (rawAttr, rest')" by (cases p)
      from "1.prems" True Inr p
      have "snd (ParseAttributeSelection_loop rest' (attr @ [Bytes rawAttr])) = Some e"
        by (simp add: ParseAttributeSelection_loop.simps [of rest])
      with "1.IH" True Inr p show ?thesis by simp
    qed
  qed
qed

lemma ParseAttributeSelection_error:
  "snd (ParseAttributeSelection b) = Some e \<Longrightarrow>
     e = NewLDAPError ResultCodeProtocolError ''Invalid sequence''
     \<or> e = NewLDAPError ResultCodeProtocolError ''Invalid attributes''"
  by (auto simp: ParseAttributeSelection_def split: sum.splits
      dest: ParseAttributeSelection_loop_error)

text \<open>The part of \<^verbatim>\<open>ParseSearchRequest\<close> after the two enumerations leaves \<open>Scope\<close> as it
  is, and every error it returns is a protocol error about a later field.\<close>

lemma ParseSearchRequest_tail_result:
  "Scope (fst (ParseSearchRequest_tail req rest)) = Scope req
   \<and> (\<forall>e. snd (ParseSearchRequest_tail req rest) = Some e \<longrightarrow>
          ResultCode e = ResultCodeProtocolError \<and> Message e \<noteq> ''Invalid scope field'')"
proof (cases "Unmarshal_int rest")
  case Inl
  then show ?thesis by (simp add: ParseSearchRequest_tail_def NewLDAPError_def)
next
  case (Inr p1)
  note i1 = this
  obtain sizeLimit r1 where p1: "p1 = (sizeLimit, r1)" by (cases p1)
  show ?thesis
  proof (cases "Unmarshal_int r1")
    case Inl
    with i1 p1 show ?thesis by (simp add: ParseSearchRequest_tail_def NewLDAPError_def)
  next
    case (Inr p2)
    note i2 = this
    obtain timeLimit r2 where p2: "p2 = (timeLimit, r2)" by (cases p2)
    show ?thesis
    proof (cases "Unmarshal_bool r2")
      case Inl
      with i1 p1 i2 p2 show ?thesis
        by (simp add: ParseSearchRequest_tail_def NewLDAPError_def)
    next
      case (Inr p3)
      note i3 = this
      obtain typesOnly r3 where p3: "p3 = (typesOnly, r3)" by (cases p3)
      show ?thesis
      proof (cases "Unmarshal_RawValue r3")
        case Inl
        with i1 p1 i2 p2 i3 p3 show ?thesis
          by (simp add: ParseSearchRequest_tail_def NewLDAPError_def)
      next
        case (Inr p4)
        note i4 = this
        obtain rawFilter r4 where p4: "p4 = (rawFilter, r4)" by (cases p4)
        show ?thesis
        proof (cases "Unmarshal_RawValue r4")
          case Inl
          with i1 p1 i2 p2 i3 p3 i4 p4 show ?thesis
            by (simp add: ParseSearchRequest_tail_def NewLDAPError_def)
        next
          case (Inr p5)
          obtain attributes r5 where p5: "p5 = (attributes, r5)" by (cases p5)
          obtain attrs err where pa: "ParseAttributeSelection (FullBytes attributes) = (attrs, err)"
            by (cases "ParseAttributeSelection (FullBytes attributes)")
          have "\<forall>e. err = Some e \<longrightarrow>
                  ResultCode e = ResultCodeProtocolError \<and> Message e \<noteq> ''Invalid scope field''"
            using ParseAttributeSelection_error [of "FullBytes attributes"] pa
            by (auto simp: NewLDAPError_def)
          with i1 p1 i2 p2 i3 p3 i4 p4 Inr p5 pa show ?thesis
            by (simp add: ParseSearchRequest_tail_def)
        qed
      qed
    qed
  qed
qed

text \<open>The scope stored in the request passes through the part of
  \<^verbatim>\<open>ParseSearchRequest\<close> after the two enumerations untouched and unread.\<close>

lemma ParseSearchRequest_tail_Scope_update:
  "ParseSearchRequest_tail (req\<lparr>Scope := x\<rparr>) rest
     = (case ParseSearchRequest_tail req rest of (q, e) \<Rightarrow> (q\<lparr>Scope := x\<rparr>, e))"
proof (cases "Unmarshal_int rest")
  case Inl
  then show ?thesis by (simp add: ParseSearchRequest_tail_def)
next
  case (Inr p1)
  note i1 = this
  obtain sizeLimit r1 where p1: "p1 = (sizeLimit, r1)" by (cases p1)
  show ?thesis
  proof (cases "Unmarshal_int r1")
    case Inl
    with i1 p1 show ?thesis by (simp add: ParseSearchRequest_tail_def)
  next
    case (Inr p2)
    note i2 = this
    obtain timeLimit r2 where p2: "p2 = (timeLimit, r2)" by (cases p2)
    show ?thesis
    proof (cases "Unmarshal_bool r2")
      case Inl
      with i1 p1 i2 p2 show ?thesis by (simp add: ParseSearchRequest_tail_def)
    next
      case (Inr p3)
      note i3 = this
      obtain typesOnly r3 where p3: "p3 = (typesOnly, r3)" by (cases p3)
      show ?thesis
      proof (cases "Unmarshal_RawValue r3")
        case Inl
        with i1 p1 i2 p2 i3 p3 show ?thesis by (simp add: ParseSearchRequest_tail_def)
      next
        case (Inr p4)
        note i4 = this
        obtain rawFilter r4 where p4: "p4 = (rawFilter, r4)" by (cases p4)
        show ?thesis
        proof (cases "Unmarshal_RawValue r4")
          case Inl
          with i1 p1 i2 p2 i3 p3 i4 p4 show ?thesis
            by (simp add: ParseSearchRequest_tail_def)
        next
          case (Inr p5)
          obtain attributes r5 where p5: "p5 = (attributes, r5)" by (cases p5)
          obtain attrs err where pa: "ParseAttributeSelection (FullBytes attributes) = (attrs, err)"
            by (cases "ParseAttributeSelection (FullBytes attributes)")
          from i1 p1 i2 p2 i3 p3 i4 p4 Inr p5 pa show ?thesis
            by (simp add: ParseSearchRequest_tail_def)
        qed
      qed
    qed
  qed
qed

text \<open>What \<^verbatim>\<open>ParseSearchRequest\<close> returns once the scope element has been decoded, with
  the scope octet as a parameter of the result.\<close>

lemma ParseSearchRequest_after_scope:
  assumes "Unmarshal_RawValue b = Inr (rawSequence, r)"
    and "Class rawSequence = 1" and "Tag rawSequence = 3"
    and "Unmarshal_bytes (Bytes rawSequence) = Inr (baseObject, rest1)"
    and "Unmarshal_RawValue rest1 = Inr (scope, rest2)"
    and "Bytes scope = s0 # ss"
  shows "ParseSearchRequest b
     = (case Unmarshal_RawValue rest2 of
          Inl e \<Rightarrow>
            Inr (new_SearchRequest\<lparr>BaseObject := baseObject, Scope := uint s0\<rparr>,
                 Some (NewLDAPError ResultCodeProtocolError ''Invalid derefAliases field''))
        | Inr (derefAliases, rest3) \<Rightarrow>
            (case Bytes derefAliases of
               [] \<Rightarrow> Inl IndexOutOfRange
             | d0 # ds \<Rightarrow>
                 Inr (case ParseSearchRequest_tail
                             (new_SearchRequest\<lparr>BaseObject := baseObject,
                                                DerefAliases := uint d0\<rparr>) rest3 of
                        (q, e) \<Rightarrow> (q\<lparr>Scope := uint s0\<rparr>, e))))"
proof -
  have upd: "\<And>d0. new_SearchRequest\<lparr>BaseObject := baseObject, Scope := uint s0,
                                     DerefAliases := uint d0\<rparr>
               = (new_SearchRequest\<lparr>BaseObject := baseObject,
                                    DerefAliases := uint d0\<rparr>)\<lparr>Scope := uint s0\<rparr>"
    by simp
  show ?thesis
    using assms
    by (simp add: ParseSearchRequest_def SearchRequest_Class_def SearchRequest_Tag_def
        upd ParseSearchRequest_tail_Scope_update
        del: SearchRequest.update_convs
        split: sum.splits list.splits prod.splits)
qed

text \<open>Every request returned after the scope element has been decoded carries its first
  content octet, and the error of the scope field is not returned.\<close>

lemma ParseSearchRequest_scope_kept:
  assumes "Unmarshal_RawValue b = Inr (rawSequence, r)"
    and "Class rawSequence = 1" and "Tag rawSequence = 3"
    and "Unmarshal_bytes (Bytes rawSequence) = Inr (baseObject, rest1)"
    and "Unmarshal_RawValue rest1 = Inr (scope, rest2)"
    and "Bytes scope = s0 # ss"
  shows "\<forall>req err. ParseSearchRequest b = Inr (req, err) \<longrightarrow>
           Scope req = uint s0
           \<and> err \<noteq> Some (NewLDAPError ResultCodeProtocolError ''Invalid scope field'')"
proof (cases "Unmarshal_RawValue rest2")
  case (Inl e)
  with assms show ?thesis
    by (simp add: ParseSearchRequest_def SearchRequest_Class_def SearchRequest_Tag_def
        NewLDAPError_def)
next
  case (Inr p)
  obtain derefAliases rest3 where p: "p = (derefAliases, rest3)" by (cases p)
  show ?thesis
  proof (cases "Bytes derefAliases")
    case Nil
    with assms Inr p show ?thesis
      by (simp add: ParseSearchRequest_def SearchRequest_Class_def SearchRequest_Tag_def)
  next
    case (Cons d0 ds)
    let ?req = "new_SearchRequest\<lparr>BaseObject := baseObject, Scope := uint s0,
                                   DerefAliases := uint d0\<rparr>"
    from assms Inr p Cons
    have eq: "ParseSearchRequest b = Inr (ParseSearchRequest_tail ?req rest3)"
      by (simp add: ParseSearchRequest_def SearchRequest_Class_def SearchRequest_Tag_def)
    from ParseSearchRequest_tail_result [of ?req rest3]
    have "Scope (fst (ParseSearchRequest_tail ?req rest3)) = uint s0"
      and "\<forall>e. snd (ParseSearchRequest_tail ?req rest3) = Some e \<longrightarrow>
              Message e \<noteq> ''Invalid scope field''"
      by simp_all
    with eq show ?thesis by (auto simp: NewLDAPError_def)
  qed
qed

section \<open>The claims\<close>

text \<open>
  C1 (round trip). The claim: parsing the serialization of a BindRequest with version 3
  and a Simple or Sasl authentication value gives the request back. The code does
  not: \<^verbatim>\<open>ParseBindRequest\<close> hands \<^verbatim>\<open>auth.FullBytes\<close>, header included, to \<^verbatim>\<open>ParseSimple\<close>,
  which returns it unchanged, so the empty password comes back as the two header
  octets; and \<^verbatim>\<open>SaslCredentials.Bytes\<close> writes a universal SEQUENCE (tag 16), which the
  switch on the tag of \<^verbatim>\<open>ParseBindRequest\<close> sends to neither parser, so the
  authentication comes back nil.
\<close>

theorem BindRequest_roundtrip_broken:
  "BindRequest_Bytes \<lparr>Version = 3, Name = [], Authentication = Some (Simple [])\<rparr>
     = Inr [0x60, 7, 2, 1, 3, 4, 0, 0x80, 0]
   \<and> ParseBindRequest [0x60, 7, 2, 1, 3, 4, 0, 0x80, 0]
     = (Some \<lparr>Version = 3, Name = [], Authentication = Some (Simple [0x80, 0])\<rparr>, None)
   \<and> BindRequest_Bytes
       \<lparr>Version = 3, Name = [],
        Authentication = Some (Sasl \<lparr>Mechanism = [0x41], Credentials = []\<rparr>)\<rparr>
     = Inr [0x60, 0x0c, 2, 1, 3, 4, 0, 0x30, 5, 4, 1, 0x41, 4, 0]
   \<and> ParseBindRequest [0x60, 0x0c, 2, 1, 3, 4, 0, 0x30, 5, 4, 1, 0x41, 4, 0]
     = (Some \<lparr>Version = 3, Name = [], Authentication = None\<rparr>, None)"
  by code_simp

text \<open>
  C2 (truncation). Let \<open>m\<close> be one complete BER element, as every encoded LDAP message
  is: \<^verbatim>\<open>asn1.Unmarshal\<close> decodes it and nothing is left. Then for every proper prefix of
  \<open>m\<close>, \<^verbatim>\<open>ParseLDAPMessage\<close> returns the protocol error "Invalid LDAPMessage". It does not
  panic, returns no operation, and never reaches the reads of \<^verbatim>\<open>scope.Bytes[0]\<close> and
  \<^verbatim>\<open>derefAliases.Bytes[0]\<close>. The PDU parsers, applied to a proper prefix of a complete
  element, return the protocol error "Invalid sequence" in the same way.
\<close>

theorem truncated_message_rejected:
  assumes "Unmarshal_RawValue m = Inr (rv, [])" and "k < length m"
  shows "ParseLDAPMessage (take k m)
           = Inr (Some \<lparr>MessageID = 0, ProtocolOp = None, Controls = None\<rparr>, [],
                  Some (NewLDAPError ResultCodeProtocolError ''Invalid LDAPMessage''))
       \<and> ParseBindRequest (take k m)
           = (Some \<lparr>Version = 0, Name = [], Authentication = None\<rparr>,
              Some (NewLDAPError ResultCodeProtocolError ''Invalid sequence''))
       \<and> ParseSearchRequest (take k m)
           = Inr (new_SearchRequest,
                  Some (NewLDAPError ResultCodeProtocolError ''Invalid sequence''))"
proof -
  from Unmarshal_RawValue_truncated [OF assms]
  obtain e where "Unmarshal_RawValue (take k m) = Inl e" by blast
  then show ?thesis
    by (simp add: ParseLDAPMessage_def ParseBindRequest_def ParseSearchRequest_def)
qed

theorem truncated_message_rejected_witness:
  "Unmarshal_RawValue example_search_message
     = Inr (\<lparr>Class = 0, Tag = 16, IsCompound = True, Bytes = drop 2 example_search_message,
            FullBytes = example_search_message\<rparr>, [])
   \<and> 12 < length example_search_message
   \<and> ParseLDAPMessage (take 12 example_search_message)
       = Inr (Some \<lparr>MessageID = 0, ProtocolOp = None, Controls = None\<rparr>, [],
              Some (NewLDAPError ResultCodeProtocolError ''Invalid LDAPMessage''))"
proof -
  have h1: "Unmarshal_RawValue example_search_message
     = Inr (\<lparr>Class = 0, Tag = 16, IsCompound = True, Bytes = drop 2 example_search_message,
            FullBytes = example_search_message\<rparr>, [])"
    by code_simp
  have h2: "12 < length example_search_message"
    by (simp add: example_search_message_def)
  from truncated_message_rejected [OF h1 h2] h1 h2 show ?thesis by simp
qed

text \<open>
  C3 (search filters), as the claim states it: search dispatch evaluates And, Or,
  EqualityMatch and Present. It does not: a Present filter, which the specification
  lists as evaluated, is answered with a single SearchResultDone carrying
  operationsError although the backend holds an entry.
\<close>

theorem present_filter_not_evaluated:
  "spec_evaluated_variant (FilterPresent ''cn'')
   \<and> Search example_backend ''ou=People,dc=example,dc=com'' Map.empty = Inr [example_user]
   \<and> handleSearch example_backend
       \<lparr>search_BaseObject = ''ou=People,dc=example,dc=com'',
        search_Filter = FilterPresent ''cn'', search_Attributes = [''cn'']\<rparr>
     = [WriteSearchResultDone \<lparr>resultCode = LDAPResultOperationsError,
                               diagnosticMessage = []\<rparr>]"
  by (simp add: handleSearch_def searchFilter_def example_backend_def)

text \<open>
  C3, amended: search dispatch evaluates only an EqualityMatch on the attribute
  \<^verbatim>\<open>cn\<close>. For every request with any other filter the handler writes a single
  SearchResultDone carrying operationsError and no entry; the request has been decoded,
  and the answer is an LDAP result. For an EqualityMatch on \<^verbatim>\<open>cn\<close> and a backend that
  answers, it writes one entry for each user and then a SearchResultDone carrying
  success.
\<close>

theorem handleSearch_filter_support:
  "((\<forall>v. search_Filter req \<noteq> FilterEqualityMatch ''cn'' v) \<longrightarrow>
      handleSearch be req
        = [WriteSearchResultDone \<lparr>resultCode = LDAPResultOperationsError,
                                  diagnosticMessage = []\<rparr>])
   \<and> (\<forall>v users. search_Filter req = FilterEqualityMatch ''cn'' v
         \<and> Search be (search_BaseObject req) (Map.empty(''cn'' \<mapsto> v)) = Inr users \<longrightarrow>
       handleSearch be req
         = map (searchEntry (search_Attributes req)) users
           @ [WriteSearchResultDone \<lparr>resultCode = LDAPResultSuccess,
                                     diagnosticMessage = []\<rparr>])"
  by (auto simp: handleSearch_def searchFilter_def Let_def split: message_Filter.splits)

theorem handleSearch_filter_support_witness:
  "(\<forall>v. FilterSubstrings ''cn'' [''ma''] \<noteq> FilterEqualityMatch ''cn'' v)
   \<and> handleSearch example_backend
       \<lparr>search_BaseObject = ''ou=People,dc=example,dc=com'',
        search_Filter = FilterSubstrings ''cn'' [''ma''], search_Attributes = [''cn'', ''email'']\<rparr>
     = [WriteSearchResultDone \<lparr>resultCode = LDAPResultOperationsError,
                               diagnosticMessage = []\<rparr>]
   \<and> Search example_backend ''ou=People,dc=example,dc=com'' (Map.empty(''cn'' \<mapsto> ''mark''))
       = Inr [example_user]
   \<and> handleSearch example_backend
       \<lparr>search_BaseObject = ''ou=People,dc=example,dc=com'',
        search_Filter = FilterEqualityMatch ''cn'' ''mark'',
        search_Attributes = [''cn'', ''email'']\<rparr>
     = [WriteSearchResultEntry ''cn=mark,ou=People,dc=example,dc=com''
          [(''cn'', ''mark''), (''email'', ''mark@example.com'')],
        WriteSearchResultDone \<lparr>resultCode = LDAPResultSuccess, diagnosticMessage = []\<rparr>]"
  using
    handleSearch_filter_support
      [of "\<lparr>search_BaseObject = ''ou=People,dc=example,dc=com'',
        search_Filter = FilterSubstrings ''cn'' [''ma''], search_Attributes = [''cn'', ''email'']\<rparr>"
        example_backend]
    handleSearch_filter_support
      [of "\<lparr>search_BaseObject = ''ou=People,dc=example,dc=com'',
        search_Filter = FilterEqualityMatch ''cn'' ''mark'',
        search_Attributes = [''cn'', ''email'']\<rparr>" example_backend]
  by (simp add: example_backend_def example_user_def searchEntry_def)

text \<open>
  What \<open>handleBind\<close> does with a simple bind. With an empty DN and an empty password it
  answers success. Otherwise, when the backend's \<^verbatim>\<open>Get\<close> returns an error it answers
  noSuchObject; when \<^verbatim>\<open>Get\<close> returns an entry and the hash of the password differs from
  the stored one it answers invalidCredentials; when they are equal it answers success.
\<close>

lemma handleBind_simple_dispatch:
  assumes "bind_Authentication req = AuthenticationSimple pw"
  shows "(bind_Name req = [] \<and> pw = [] \<longrightarrow>
      handleBind sha256_hex be req
        = Inr [WriteBindResponse \<lparr>resultCode = LDAPResultSuccess, diagnosticMessage = []\<rparr>])
   \<and> (\<not> (bind_Name req = [] \<and> pw = []) \<longrightarrow>
        (\<forall>u err. Get be (bind_Name req) = (u, Some err) \<longrightarrow>
           handleBind sha256_hex be req
             = Inr [WriteBindResponse \<lparr>resultCode = LDAPResultNoSuchObject,
                                       diagnosticMessage = ''No such object''\<rparr>])
        \<and> (\<forall>user. Get be (bind_Name req) = (Some user, None) \<longrightarrow>
             (Password user \<noteq> sha256_hex pw \<longrightarrow>
                handleBind sha256_hex be req
                  = Inr [WriteBindResponse \<lparr>resultCode = LDAPResultInvalidCredentials,
                                            diagnosticMessage = ''Invalid credentials''\<rparr>])
             \<and> (Password user = sha256_hex pw \<longrightarrow>
                  handleBind sha256_hex be req
                    = Inr [WriteBindResponse \<lparr>resultCode = LDAPResultSuccess,
                                              diagnosticMessage = []\<rparr>])))"
  using assms
  by (auto simp: handleBind_def BindRequest_AuthenticationSimple_def Let_def)

text \<open>
  C4 (bind dispatch). The claim: for a request with an empty DN and an empty credential
  the handler answers success, and every other request is answered with noSuchObject,
  invalidCredentials or success. The handler does so for simple binds
  (\<open>handleBind_simple_dispatch\<close>), and for no SASL bind: it reads the password with
  \<^verbatim>\<open>req.AuthenticationSimple()\<close>, whose type assertion fails on a SASL choice, so the
  handler panics before it writes a response, whatever the DN, the mechanism, the
  credentials and the backend. In particular a SASL bind with an empty DN and no
  credentials is not answered with success.
\<close>

theorem handleBind_sasl_panics:
  "handleBind sha256_hex be
     \<lparr>bind_Name = dn, bind_Authentication = AuthenticationSasl mechanism credentials\<rparr>
     = Inl InterfaceConversion
   \<and> handleBind example_hash example_backend
       \<lparr>bind_Name = [], bind_Authentication = AuthenticationSasl ''EXTERNAL'' None\<rparr>
     = Inl InterfaceConversion"
  by (simp add: handleBind_def BindRequest_AuthenticationSimple_def)

text \<open>
  C5 (protocol version). Whenever the version field of a BindRequest decodes to an
  integer other than 3, \<^verbatim>\<open>ParseBindRequest\<close> returns an error with the result code
  protocolError; when it decodes to 3, the error "Unsupported version" is not returned;
  and every error of \<^verbatim>\<open>ParseBindRequest\<close> carries protocolError (there is no separate
  error for an unsupported authentication).
\<close>

theorem ParseBindRequest_version:
  assumes "Unmarshal_RawValue b = Inr (rawSequence, r)"
    and "Unmarshal_int (Bytes rawSequence) = Inr (version, rest)"
  shows "(version \<noteq> 3 \<longrightarrow>
            (\<exists>req msg. ParseBindRequest b
               = (req, Some (NewLDAPError ResultCodeProtocolError msg))))
       \<and> (version = 3 \<longrightarrow>
            snd (ParseBindRequest b)
              \<noteq> Some (NewLDAPError ResultCodeProtocolError ''Unsupported version''))
       \<and> (\<forall>e. snd (ParseBindRequest b) = Some e \<longrightarrow>
            ResultCode e = ResultCodeProtocolError)"
  using assms ParseBindRequest_error_code [of b]
  by (auto simp: ParseBindRequest_def ParseSimple_def NewLDAPError_def Let_def
      split: sum.splits prod.splits option.splits if_splits)

theorem ParseBindRequest_version_witness:
  "Unmarshal_RawValue [0x60, 7, 2, 1, 2, 4, 0, 0x80, 0]
     = Inr (\<lparr>Class = 1, Tag = 0, IsCompound = True, Bytes = [2, 1, 2, 4, 0, 0x80, 0],
            FullBytes = [0x60, 7, 2, 1, 2, 4, 0, 0x80, 0]\<rparr>, [])
   \<and> Unmarshal_int [2, 1, 2, 4, 0, 0x80, 0] = Inr (2, [4, 0, 0x80, 0])
   \<and> (\<exists>req msg. ParseBindRequest [0x60, 7, 2, 1, 2, 4, 0, 0x80, 0]
               = (req, Some (NewLDAPError ResultCodeProtocolError msg)))"
proof -
  have h1: "Unmarshal_RawValue [0x60, 7, 2, 1, 2, 4, 0, 0x80, 0]
     = Inr (\<lparr>Class = 1, Tag = 0, IsCompound = True, Bytes = [2, 1, 2, 4, 0, 0x80, 0],
            FullBytes = [0x60, 7, 2, 1, 2, 4, 0, 0x80, 0]\<rparr>, [])"
    by code_simp
  have h2: "Unmarshal_int (Bytes \<lparr>Class = 1, Tag = 0, IsCompound = True, Bytes = [2, 1, 2, 4, 0, 0x80, 0],
            FullBytes = [0x60, 7, 2, 1, 2, 4, 0, 0x80, 0]\<rparr>) = Inr (2, [4, 0, 0x80, 0])"
    by code_simp
  from ParseBindRequest_version [OF h1 h2] h1 h2 show ?thesis by simp
qed

text \<open>
  C6 (scope), as the claim states it: a scope outside 0, 1, 2 makes
  \<^verbatim>\<open>ParseSearchRequest\<close> fail with a protocol error. It does not: a search request with
  the scope octet 7 is decoded without an error, and \<open>Scope\<close> is 7.
\<close>

theorem scope_out_of_range_accepted:
  "ParseSearchRequest example_search_scope7
     = Inr (\<lparr>BaseObject = [0x64, 0x63], Scope = 7, DerefAliases = 0, SizeLimit = 0,
             TimeLimit = 0, TypesOnly = False,
             Filter = EqualityMatch \<lparr>AttributeDesc = [0x63, 0x6e], AssertionValue = [0x78]\<rparr>,
             Attributes = [[0x63, 0x6e]]\<rparr>, None)"
  by code_simp

text \<open>
  C6, amended: the scope is not validated. Let the scope element of a search request
  decode and have a content octet. Then \<^verbatim>\<open>ParseSearchRequest\<close> stores that first octet,
  whatever its value, as \<open>Scope\<close>, and what it returns is decided by the fields after
  the scope alone: a panic when the derefAliases element has no content octet, else
  the request with the error, if any, of the first later field that does not decode.
  Two requests that differ in the scope element only have the same outcome, with the
  same error or none, and differ in \<open>Scope\<close> only. The error "Invalid scope field" is
  returned only when the scope element itself does not decode.
\<close>

theorem ParseSearchRequest_scope_unvalidated:
  assumes "Unmarshal_RawValue b = Inr (rawSequence, r)"
    and "Class rawSequence = 1" and "Tag rawSequence = 3"
    and "Unmarshal_bytes (Bytes rawSequence) = Inr (baseObject, rest1)"
    and "Unmarshal_RawValue rest1 = Inr (scope, rest2)"
    and "Bytes scope = s0 # ss"
    and "Unmarshal_RawValue b' = Inr (rawSequence', r')"
    and "Class rawSequence' = 1" and "Tag rawSequence' = 3"
    and "Unmarshal_bytes (Bytes rawSequence') = Inr (baseObject, rest1')"
    and "Unmarshal_RawValue rest1' = Inr (scope', rest2)"
    and "Bytes scope' = s0' # ss'"
  shows "ParseSearchRequest b
           = (case Unmarshal_RawValue rest2 of
                Inl e \<Rightarrow>
                  Inr (new_SearchRequest\<lparr>BaseObject := baseObject, Scope := uint s0\<rparr>,
                       Some (NewLDAPError ResultCodeProtocolError
                               ''Invalid derefAliases field''))
              | Inr (derefAliases, rest3) \<Rightarrow>
                  (case Bytes derefAliases of
                     [] \<Rightarrow> Inl IndexOutOfRange
                   | d0 # ds \<Rightarrow>
                       Inr (case ParseSearchRequest_tail
                                   (new_SearchRequest\<lparr>BaseObject := baseObject,
                                                      DerefAliases := uint d0\<rparr>) rest3 of
                              (q, e) \<Rightarrow> (q\<lparr>Scope := uint s0\<rparr>, e))))
       \<and> ParseSearchRequest b'
           = map_sum id (\<lambda>(req, err). (req\<lparr>Scope := uint s0'\<rparr>, err)) (ParseSearchRequest b)
       \<and> (\<forall>req err. ParseSearchRequest b = Inr (req, err) \<longrightarrow>
             Scope req = uint s0
             \<and> err \<noteq> Some (NewLDAPError ResultCodeProtocolError ''Invalid scope field''))"
proof -
  note A = ParseSearchRequest_after_scope [OF assms(1-6)]
  note A' = ParseSearchRequest_after_scope [OF assms(7-12)]
  have B: "ParseSearchRequest b'
           = map_sum id (\<lambda>(req, err). (req\<lparr>Scope := uint s0'\<rparr>, err)) (ParseSearchRequest b)"
    unfolding A A'
    by (simp split: sum.splits list.splits prod.splits)
  from A B ParseSearchRequest_scope_kept [OF assms(1-6)] show ?thesis
    by blast
qed

theorem ParseSearchRequest_scope_unvalidated_witness:
  "Unmarshal_RawValue example_search_scope2
     = Inr (\<lparr>Class = 1, Tag = 3, IsCompound = True, Bytes = drop 2 example_search_scope2,
            FullBytes = example_search_scope2\<rparr>, [])
   \<and> Unmarshal_bytes (drop 2 example_search_scope2)
     = Inr ([0x64, 0x63], drop 6 example_search_scope2)
   \<and> Unmarshal_RawValue (drop 6 example_search_scope2)
     = Inr (\<lparr>Class = 0, Tag = 10, IsCompound = False, Bytes = [2], FullBytes = [0x0a, 1, 2]\<rparr>,
            drop 9 example_search_scope2)
   \<and> Unmarshal_RawValue example_search_scope7
     = Inr (\<lparr>Class = 1, Tag = 3, IsCompound = True, Bytes = drop 2 example_search_scope7,
            FullBytes = example_search_scope7\<rparr>, [])
   \<and> Unmarshal_bytes (drop 2 example_search_scope7)
     = Inr ([0x64, 0x63], drop 6 example_search_scope7)
   \<and> Unmarshal_RawValue (drop 6 example_search_scope7)
     = Inr (\<lparr>Class = 0, Tag = 10, IsCompound = False, Bytes = [7], FullBytes = [0x0a, 1, 7]\<rparr>,
            drop 9 example_search_scope2)
   \<and> ParseSearchRequest example_search_scope2
     = Inr (\<lparr>BaseObject = [0x64, 0x63], Scope = 2, DerefAliases = 0, SizeLimit = 0,
             TimeLimit = 0, TypesOnly = False,
             Filter = EqualityMatch \<lparr>AttributeDesc = [0x63, 0x6e], AssertionValue = [0x78]\<rparr>,
             Attributes = [[0x63, 0x6e]]\<rparr>, None)
   \<and> ParseSearchRequest example_search_scope7
     = Inr (\<lparr>BaseObject = [0x64, 0x63], Scope = 7, DerefAliases = 0, SizeLimit = 0,
             TimeLimit = 0, TypesOnly = False,
             Filter = EqualityMatch \<lparr>AttributeDesc = [0x63, 0x6e], AssertionValue = [0x78]\<rparr>,
             Attributes = [[0x63, 0x6e]]\<rparr>, None)"
proof -
  let ?seq2 = "\<lparr>Class = 1, Tag = 3, IsCompound = True, Bytes = drop 2 example_search_scope2,
            FullBytes = example_search_scope2\<rparr>"
  let ?seq7 = "\<lparr>Class = 1, Tag = 3, IsCompound = True, Bytes = drop 2 example_search_scope7,
            FullBytes = example_search_scope7\<rparr>"
  let ?scope2 = "\<lparr>Class = 0, Tag = 10, IsCompound = False, Bytes = [2 :: byte],
            FullBytes = [0x0a, 1, 2 :: byte]\<rparr>"
  let ?scope7 = "\<lparr>Class = 0, Tag = 10, IsCompound = False, Bytes = [7 :: byte],
            FullBytes = [0x0a, 1, 7 :: byte]\<rparr>"
  have h1: "Unmarshal_RawValue example_search_scope2 = Inr (?seq2, [])"
    by code_simp
  have h2: "Class ?seq2 = 1" and h3: "Tag ?seq2 = 3" by simp_all
  have h4: "Unmarshal_bytes (Bytes ?seq2) = Inr ([0x64, 0x63], drop 6 example_search_scope2)"
    by code_simp
  have h5: "Unmarshal_RawValue (drop 6 example_search_scope2)
              = Inr (?scope2, drop 9 example_search_scope2)"
    by code_simp
  have h6: "Bytes ?scope2 = 2 # []" by simp
  have k1: "Unmarshal_RawValue example_search_scope7 = Inr (?seq7, [])"
    by code_simp
  have k2: "Class ?seq7 = 1" and k3: "Tag ?seq7 = 3" by simp_all
  have k4: "Unmarshal_bytes (Bytes ?seq7) = Inr ([0x64, 0x63], drop 6 example_search_scope7)"
    by code_simp
  have k5: "Unmarshal_RawValue (drop 6 example_search_scope7)
              = Inr (?scope7, drop 9 example_search_scope2)"
    by code_simp
  have k6: "Bytes ?scope7 = 7 # []" by simp
  have ev: "ParseSearchRequest example_search_scope2
     = Inr (\<lparr>BaseObject = [0x64, 0x63], Scope = 2, DerefAliases = 0, SizeLimit = 0,
             TimeLimit = 0, TypesOnly = False,
             Filter = EqualityMatch \<lparr>AttributeDesc = [0x63, 0x6e], AssertionValue = [0x78]\<rparr>,
             Attributes = [[0x63, 0x6e]]\<rparr>, None)"
    by code_simp
  from ParseSearchRequest_scope_unvalidated [OF h1 h2 h3 h4 h5 h6 k1 k2 k3 k4 k5 k6,
      THEN conjunct2, THEN conjunct1]
  have "ParseSearchRequest example_search_scope7
     = Inr (\<lparr>BaseObject = [0x64, 0x63], Scope = 7, DerefAliases = 0, SizeLimit = 0,
             TimeLimit = 0, TypesOnly = False,
             Filter = EqualityMatch \<lparr>AttributeDesc = [0x63, 0x6e], AssertionValue = [0x78]\<rparr>,
             Attributes = [[0x63, 0x6e]]\<rparr>, None)"
    by (simp add: ev)
  with h1 h4 h5 k1 k4 k5 ev show ?thesis by simp
qed

text \<open>
  C7 (BER identities). The claim: the \<^verbatim>\<open>Class()\<close> and \<^verbatim>\<open>Tag()\<close> methods return the RFC 4511
  identities. What they return: BindRequest, BindResponse, SearchRequest, And,
  EqualityMatch and Present agree with the claim; ExtendedRequest returns class 23 and
  tag 0, ExtendedResponse class 24 and tag 0 (the two numbers are exchanged with
  respect to the comments \<^verbatim>\<open>[APPLICATION 23]\<close> and \<^verbatim>\<open>[APPLICATION 24]\<close> above the types),
  and \<^verbatim>\<open>Or.Tag()\<close> returns 3, the tag of EqualityMatch, where the grammar in the source
  and the dispatch of \<^verbatim>\<open>ParseFilter\<close> have 1.
\<close>

theorem Class_Tag_values:
  "BindRequest_Class br = 1 \<and> BindRequest_Tag br = 0
   \<and> BindResponse_Class bres = 1 \<and> BindResponse_Tag bres = 1
   \<and> SearchRequest_Class sr = 1 \<and> SearchRequest_Tag sr = 3
   \<and> ExtendedRequest_Class ereq = 23 \<and> ExtendedRequest_Tag ereq = 0
   \<and> ExtendedResponse_Class eres = 24 \<and> ExtendedResponse_Tag eres = 0
   \<and> And_Class a = 2 \<and> And_Tag a = 0
   \<and> Or_Class o1 = 2 \<and> Or_Tag o1 = 3
   \<and> EqualityMatch_Class em = 2 \<and> EqualityMatch_Tag em = 3
   \<and> Present_Class p = 2 \<and> Present_Tag p = 7"
  by (simp add: BindRequest_Class_def BindRequest_Tag_def BindResponse_Class_def
      BindResponse_Tag_def SearchRequest_Class_def SearchRequest_Tag_def
      ExtendedRequest_Class_def ExtendedRequest_Tag_def ExtendedResponse_Class_def
      ExtendedResponse_Tag_def And_Class_def And_Tag_def Or_Class_def Or_Tag_def
      EqualityMatch_Class_def EqualityMatch_Tag_def Present_Class_def Present_Tag_def)

text \<open>
  C8 (backend failure), as the claim states it: a failing backend makes bind, like
  search, answer operationsError. For bind it does not: with a backend whose \<^verbatim>\<open>Get\<close>
  fails because the store cannot be reached, the handler answers a simple bind with
  noSuchObject.
\<close>

theorem bind_backend_failure_is_NoSuchObject:
  "Get failing_backend ''cn=mark,ou=People,dc=example,dc=com''
     = (None, Some ''client: etcd cluster is unavailable or misconfigured'')
   \<and> handleBind example_hash failing_backend
       \<lparr>bind_Name = ''cn=mark,ou=People,dc=example,dc=com'',
        bind_Authentication = AuthenticationSimple ''secret''\<rparr>
     = Inr [WriteBindResponse \<lparr>resultCode = LDAPResultNoSuchObject,
                               diagnosticMessage = ''No such object''\<rparr>]"
  by (simp add: handleBind_def BindRequest_AuthenticationSimple_def failing_backend_def)

text \<open>
  C8, amended: when the backend fails during a search, the handler answers with a
  single SearchResultDone whose result code is operationsError; when the backend's
  \<^verbatim>\<open>Get\<close> fails during a bind that is not anonymous, for whatever reason, the handler
  answers with a single BindResponse whose result code is noSuchObject. In both cases
  the handler returns after writing that one response. (\<^verbatim>\<open>Get\<close> is called only after
  the password of a simple bind has been read, so a bind during which \<^verbatim>\<open>Get\<close> fails is
  a simple bind; a failing \<^verbatim>\<open>Get\<close> is one that returns an error, whatever pointer comes
  with it.)
\<close>

theorem backend_failure_responses:
  "(\<forall>filter1 err. searchFilter (search_Filter sreq) = (filter1, False)
        \<and> Search be (search_BaseObject sreq) filter1 = Inl err \<longrightarrow>
      handleSearch be sreq
        = [WriteSearchResultDone \<lparr>resultCode = LDAPResultOperationsError,
                                  diagnosticMessage = []\<rparr>])
   \<and> (\<forall>pw u err. bind_Authentication breq = AuthenticationSimple pw
        \<and> \<not> (bind_Name breq = [] \<and> pw = [])
        \<and> Get be (bind_Name breq) = (u, Some err) \<longrightarrow>
      handleBind sha256_hex be breq
        = Inr [WriteBindResponse \<lparr>resultCode = LDAPResultNoSuchObject,
                                  diagnosticMessage = ''No such object''\<rparr>])"
  by (auto simp: handleSearch_def handleBind_def BindRequest_AuthenticationSimple_def Let_def)

theorem backend_failure_responses_witness:
  "searchFilter (FilterEqualityMatch ''cn'' ''mark'') = (Map.empty(''cn'' \<mapsto> ''mark''), False)
   \<and> Search failing_backend ''dc=example,dc=com'' (Map.empty(''cn'' \<mapsto> ''mark''))
       = Inl ''client: etcd cluster is unavailable or misconfigured''
   \<and> handleSearch failing_backend
       \<lparr>search_BaseObject = ''dc=example,dc=com'',
        search_Filter = FilterEqualityMatch ''cn'' ''mark'', search_Attributes = [''cn'']\<rparr>
     = [WriteSearchResultDone \<lparr>resultCode = LDAPResultOperationsError,
                               diagnosticMessage = []\<rparr>]
   \<and> Get failing_backend ''cn=mark''
       = (None, Some ''client: etcd cluster is unavailable or misconfigured'')
   \<and> handleBind example_hash failing_backend
       \<lparr>bind_Name = ''cn=mark'', bind_Authentication = AuthenticationSimple ''secret''\<rparr>
     = Inr [WriteBindResponse \<lparr>resultCode = LDAPResultNoSuchObject,
                               diagnosticMessage = ''No such object''\<rparr>]"
  using backend_failure_responses
    [of "\<lparr>search_BaseObject = ''dc=example,dc=com'',
        search_Filter = FilterEqualityMatch ''cn'' ''mark'', search_Attributes = [''cn'']\<rparr>"
      failing_backend
      "\<lparr>bind_Name = ''cn=mark'', bind_Authentication = AuthenticationSimple ''secret''\<rparr>"
      example_hash]
  by (simp add: failing_backend_def searchFilter_def)

text \<open>
  C9 (other authentication tags). For a BindRequest element of class 1 and tag 0 whose
  version decodes to 3 and whose name decodes, an authentication element with a tag
  other than 0 and 3 is accepted: \<^verbatim>\<open>ParseBindRequest\<close> returns the request without an
  error, and its \<open>Authentication\<close> is nil.
\<close>

theorem ParseBindRequest_unknown_auth:
  assumes "Unmarshal_RawValue b = Inr (rawSequence, r)"
    and "Class rawSequence = 1" and "Tag rawSequence = 0"
    and "Unmarshal_int (Bytes rawSequence) = Inr (3, rest1)"
    and "Unmarshal_bytes rest1 = Inr (name, rest2)"
    and "Unmarshal_RawValue rest2 = Inr (auth, rest3)"
    and "Tag auth \<noteq> 0" and "Tag auth \<noteq> 3"
  shows "ParseBindRequest b = (Some \<lparr>Version = 3, Name = name, Authentication = None\<rparr>, None)"
  using assms
  by (simp add: ParseBindRequest_def BindRequest_Class_def BindRequest_Tag_def)


theorem ParseBindRequest_unknown_auth_witness:
  "Unmarshal_RawValue [0x60, 9, 2, 1, 3, 4, 2, 0x63, 0x6e, 0x81, 0]
     = Inr (\<lparr>Class = 1, Tag = 0, IsCompound = True,
            Bytes = [2, 1, 3, 4, 2, 0x63, 0x6e, 0x81, 0],
            FullBytes = [0x60, 9, 2, 1, 3, 4, 2, 0x63, 0x6e, 0x81, 0]\<rparr>, [])
   \<and> Unmarshal_int [2, 1, 3, 4, 2, 0x63, 0x6e, 0x81, 0] = Inr (3, [4, 2, 0x63, 0x6e, 0x81, 0])
   \<and> Unmarshal_bytes [4, 2, 0x63, 0x6e, 0x81, 0] = Inr ([0x63, 0x6e], [0x81, 0])
   \<and> Unmarshal_RawValue [0x81, 0]
     = Inr (\<lparr>Class = 2, Tag = 1, IsCompound = False, Bytes = [], FullBytes = [0x81, 0]\<rparr>, [])
   \<and> ParseBindRequest [0x60, 9, 2, 1, 3, 4, 2, 0x63, 0x6e, 0x81, 0]
     = (Some \<lparr>Version = 3, Name = [0x63, 0x6e], Authentication = None\<rparr>, None)"
proof -
  let ?seq = "\<lparr>Class = 1, Tag = 0, IsCompound = True,
            Bytes = [2, 1, 3, 4, 2, 0x63, 0x6e, 0x81, 0],
            FullBytes = [0x60, 9, 2, 1, 3, 4, 2, 0x63, 0x6e, 0x81, 0::byte]\<rparr>"
  let ?auth = "\<lparr>Class = 2, Tag = 1, IsCompound = False, Bytes = [], FullBytes = [0x81, 0::byte]\<rparr>"
  have h1: "Unmarshal_RawValue [0x60, 9, 2, 1, 3, 4, 2, 0x63, 0x6e, 0x81, 0] = Inr (?seq, [])"
    by code_simp
  have h2: "Class ?seq = 1" and h3: "Tag ?seq = 0" by simp_all
  have h4: "Unmarshal_int (Bytes ?seq) = Inr (3, [4, 2, 0x63, 0x6e, 0x81, 0])"
    by code_simp
  have h5: "Unmarshal_bytes [4, 2, 0x63, 0x6e, 0x81, 0] = Inr ([0x63, 0x6e], [0x81, 0])"
    by code_simp
  have h6: "Unmarshal_RawValue [0x81, 0] = Inr (?auth, [])"
    by code_simp
  have h7: "Tag ?auth \<noteq> 0" and h8: "Tag ?auth \<noteq> 3" by simp_all
  from ParseBindRequest_unknown_auth [OF h1 h2 h3 h4 h5 h6 h7 h8] h1 h4 h5 h6
  show ?thesis by simp
qed

text \<open>
  C10 (controls). Every message that \<^verbatim>\<open>ParseLDAPMessage\<close> returns, with or without an
  error, has a nil \<open>Controls\<close> field, and \<^verbatim>\<open>LDAPMessage.Bytes\<close> gives the same result
  whatever the \<open>Controls\<close> field holds.
\<close>

theorem Controls_stay_at_envelope:
  "(\<forall>msg rest err. ParseLDAPMessage b = Inr (Some msg, rest, err) \<longrightarrow> Controls msg = None)
   \<and> LDAPMessage_Bytes (m\<lparr>Controls := c\<rparr>) = LDAPMessage_Bytes m"
  by (auto simp: LDAPMessage_Bytes_def dest: ParseLDAPMessage_Controls)

theorem Controls_stay_at_envelope_witness:
  "ParseLDAPMessage [0x30, 0x1a, 2, 1, 1, 0x60, 7, 2, 1, 3, 4, 0, 0x80, 0,
                     0xa0, 0x0c, 0x30, 0x0a, 4, 8, 0x31, 0x2e, 0x32, 0x2e, 0x33, 0x2e, 0x34, 0x2e]
     = Inr (Some \<lparr>MessageID = 1,
                  ProtocolOp = Some (BindRequestOp
                    (Some \<lparr>Version = 3, Name = [], Authentication = Some (Simple [0x80, 0])\<rparr>)),
                  Controls = None\<rparr>, [], None)
   \<and> Controls \<lparr>MessageID = 1,
                  ProtocolOp = Some (BindRequestOp
                    (Some \<lparr>Version = 3, Name = [], Authentication = Some (Simple [0x80, 0])\<rparr>)),
                  Controls = None\<rparr> = None"
proof -
  have h: "ParseLDAPMessage [0x30, 0x1a, 2, 1, 1, 0x60, 7, 2, 1, 3, 4, 0, 0x80, 0,
                     0xa0, 0x0c, 0x30, 0x0a, 4, 8, 0x31, 0x2e, 0x32, 0x2e, 0x33, 0x2e, 0x34, 0x2e]
     = Inr (Some \<lparr>MessageID = 1,
                  ProtocolOp = Some (BindRequestOp
                    (Some \<lparr>Version = 3, Name = [], Authentication = Some (Simple [0x80, 0])\<rparr>)),
                  Controls = None\<rparr>, [], None)"
    by code_simp
  from Controls_stay_at_envelope [THEN conjunct1, rule_format, OF h] h
  show ?thesis by simp
qed

end
